theory Spec2Isabelle
  imports Complex_Main "HOL-Library.Log_Nat"
begin

section \<open>Numbers\<close>

text \<open>
  Every number of the engine is a JavaScript number, an IEEE 754 double. The embedding
  takes the finite doubles as the rationals they denote. Comparison, negation,
  \<open>Math.abs\<close>, \<open>Math.round\<close> and \<open>%\<close> are exact on doubles. A sum, a difference, a product
  or a quotient is the exact result rounded to the nearest double, a tie going to the
  even significand: \<open>fl\<close>. A \<open>Float32Array\<close> rounds what is stored in it to the nearest
  single in the same way: \<open>fl32\<close>. The sections on matrices, colliders and physics round
  every operation of the code. The sections on rectangles and colors keep the exact
  operations: their statements turn on which fields are compared and assigned. \<open>NaN\<close>,
  the infinities and the sign of zero are not part of the model, so a result beyond the
  largest number of a format stands for an overflow that the model does not follow. An
  argument that a caller may leave out (\<open>undefined\<close>) is an \<open>option\<close>.
\<close>

type_synonym number = rat

text \<open>The binary exponent \<open>e\<close> of a number \<open>x\<close> other than \<open>0\<close>: \<open>2 ^ e \<le> |x| < 2 ^ (e + 1)\<close>.\<close>

definition floor_log2 :: "rat \<Rightarrow> int" where
  "floor_log2 x =
     (let (p, q) = quotient_of \<bar>x\<bar>; d = bitlen p - bitlen q
      in if 2 powi d \<le> \<bar>x\<bar> then d else d - 1)"

text \<open>The nearest integer, a tie going to the even one.\<close>

definition round_even :: "rat \<Rightarrow> int" where
  "round_even y =
     (let f = \<lfloor>y\<rfloor>; r = y - of_int f
      in if r < 1 / 2 then f else if 1 / 2 < r then f + 1 else if even f then f else f + 1)"

text \<open>
  Rounding to a binary format with \<open>p\<close> bits of significand and least normal exponent
  \<open>emin\<close>: the nearest multiple of the unit in the last place, which below \<open>2 ^ emin\<close> is
  the unit of the subnormal numbers.
\<close>

definition round_to :: "nat \<Rightarrow> int \<Rightarrow> rat \<Rightarrow> rat" where
  "round_to p emin x =
     (if x = 0 then 0
      else let e = max (floor_log2 x) emin; u = 2 powi (e - int p + 1)
           in of_int (round_even (x / u)) * u)"

definition fl :: "rat \<Rightarrow> number" where
  "fl = round_to 53 (- 1022)"

definition fl32 :: "rat \<Rightarrow> number" where
  "fl32 = round_to 24 (- 126)"

text \<open>The operators \<open>+\<close>, \<open>-\<close>, \<open>*\<close> and \<open>/\<close> of the language, on doubles.\<close>

definition dadd :: "number \<Rightarrow> number \<Rightarrow> number" where
  "dadd a b = fl (a + b)"

definition dsub :: "number \<Rightarrow> number \<Rightarrow> number" where
  "dsub a b = fl (a - b)"

definition dmul :: "number \<Rightarrow> number \<Rightarrow> number" where
  "dmul a b = fl (a * b)"


text \<open>\<open>v || d\<close> on a number argument: \<open>undefined\<close> and \<open>0\<close> are falsy.\<close>

definition or_default :: "number option \<Rightarrow> number \<Rightarrow> number" where
  "or_default v d = (case v of None \<Rightarrow> d | Some n \<Rightarrow> if n = 0 then d else n)"

text \<open>\<open>Math.round\<close>: the nearest integer, a tie going towards \<open>+\<infinity>\<close>.\<close>

definition Math_round :: "number \<Rightarrow> number" where
  "Math_round v = of_int \<lfloor>v + 1 / 2\<rfloor>"

text \<open>\<open>v % 1\<close>: the remainder keeps the sign of \<open>v\<close> (the quotient is truncated towards 0).\<close>

definition trunc :: "number \<Rightarrow> int" where
  "trunc v = (if 0 \<le> v then \<lfloor>v\<rfloor> else \<lceil>v\<rceil>)"

definition mod1 :: "number \<Rightarrow> number" where
  "mod1 v = v - of_int (trunc v)"

text \<open>\<open>Calc.sign\<close>\<close>

definition Calc_sign :: "number \<Rightarrow> number" where
  "Calc_sign n = (if n < 0 then - 1 else (if n > 0 then 1 else 0))"

section \<open>Rectangle\<close>

record Rectangle =
  rect_x :: number
  rect_y :: number
  rect_width :: number
  rect_height :: number

definition left :: "Rectangle \<Rightarrow> number" where
  "left r = rect_x r"

definition right :: "Rectangle \<Rightarrow> number" where
  "right r = rect_x r + rect_width r"

definition top_edge :: "Rectangle \<Rightarrow> number" where
  "top_edge r = rect_y r"

definition bottom :: "Rectangle \<Rightarrow> number" where
  "bottom r = rect_y r + rect_height r"

text \<open>The constructor: \<open>x || 0\<close>, \<open>y || 0\<close>, \<open>w || 1\<close>, \<open>h || 1\<close>.\<close>

definition Rectangle_new ::
  "number option \<Rightarrow> number option \<Rightarrow> number option \<Rightarrow> number option \<Rightarrow> Rectangle" where
  "Rectangle_new x y w h =
     \<lparr>rect_x = or_default x 0, rect_y = or_default y 0,
      rect_width = or_default w 1, rect_height = or_default h 1\<rparr>"

definition Rectangle_set ::
  "number \<Rightarrow> number \<Rightarrow> number \<Rightarrow> number \<Rightarrow> Rectangle \<Rightarrow> Rectangle" where
  "Rectangle_set x y w h this =
     this\<lparr>rect_x := x, rect_y := y, rect_width := w, rect_height := h\<rparr>"

text \<open>
  \<open>cropRect(r)\<close> updates \<open>r\<close> in place through six tests in sequence and returns it;
  \<open>r1\<close> to \<open>r6\<close> are the values of \<open>r\<close> after each test. The second test compares
  \<open>r.y\<close> with \<open>this.x\<close>, as the source does.
\<close>

definition cropRect :: "Rectangle \<Rightarrow> Rectangle \<Rightarrow> Rectangle" where
  "cropRect this r =
    (let r1 = (if rect_x r < rect_x this
               then r\<lparr>rect_width := rect_width r + (rect_x r - rect_x this),
                      rect_x := rect_x this\<rparr>
               else r);
         r2 = (if rect_y r1 < rect_x this
               then r1\<lparr>rect_height := rect_height r1 + (rect_y r1 - rect_y this),
                       rect_y := rect_y this\<rparr>
               else r1);
         r3 = (if rect_x r2 > right this
               then r2\<lparr>rect_x := right this, rect_width := 0\<rparr>
               else r2);
         r4 = (if rect_y r3 > bottom this
               then r3\<lparr>rect_y := bottom this, rect_height := 0\<rparr>
               else r3);
         r5 = (if right r4 > right this
               then r4\<lparr>rect_width := right this - rect_x r4\<rparr>
               else r4);
         r6 = (if bottom r5 > bottom this
               then r5\<lparr>rect_height := bottom this - rect_y r5\<rparr>
               else r5)
     in r6)"

text \<open>\<open>crop(x, y, w, h)\<close> with no \<open>ref\<close>: a fresh rectangle, set and cropped.\<close>

definition crop :: "Rectangle \<Rightarrow> number \<Rightarrow> number \<Rightarrow> number \<Rightarrow> number \<Rightarrow> Rectangle" where
  "crop this x y w h =
     cropRect this (Rectangle_set x y w h (Rectangle_new None None None None))"

section \<open>Color\<close>

text \<open>
  A color object holds the array \<open>color = [r, g, b, a]\<close>; every setter clamps to \<open>[0, 1]\<close>.
  Colors are objects with identity: methods work on a reference into a store of colors,
  so that what a method returns (a reference) and what it changes (the store) are apart.
\<close>

record Color =
  color_r :: number
  color_g :: number
  color_b :: number
  color_a :: number

type_synonym ref = nat


definition clamp01 :: "number \<Rightarrow> number" where
  "clamp01 v = min 1 (max 0 v)"

definition set_r :: "number \<Rightarrow> Color \<Rightarrow> Color" where
  "set_r v c = c\<lparr>color_r := clamp01 v\<rparr>"

definition set_g :: "number \<Rightarrow> Color \<Rightarrow> Color" where
  "set_g v c = c\<lparr>color_g := clamp01 v\<rparr>"

definition set_b :: "number \<Rightarrow> Color \<Rightarrow> Color" where
  "set_b v c = c\<lparr>color_b := clamp01 v\<rparr>"

definition set_a :: "number \<Rightarrow> Color \<Rightarrow> Color" where
  "set_a v c = c\<lparr>color_a := clamp01 v\<rparr>"

text \<open>The constructor starts from \<open>[0, 0, 0, 1]\<close> and assigns \<open>r || 0\<close>, \<open>g || 0\<close>, \<open>b || 0\<close>, \<open>a || 1\<close>.\<close>

definition Color_new ::
  "number option \<Rightarrow> number option \<Rightarrow> number option \<Rightarrow> number option \<Rightarrow> Color" where
  "Color_new r g b a =
     set_a (or_default a 1) (set_b (or_default b 0) (set_g (or_default g 0)
       (set_r (or_default r 0) \<lparr>color_r = 0, color_g = 0, color_b = 0, color_a = 1\<rparr>)))"




section \<open>Matrix\<close>




section \<open>ObjectList\<close>

text \<open>
  The slots \<open>objects\<close> hold objects or \<open>null\<close> (\<open>None\<close>); an object handed to a method
  may be \<open>null\<close> too. The flags \<open>unsorted\<close> and \<open>dirty\<close> are declared without a value
  and only tested for truth, so the unset flag is \<open>False\<close>. The fields \<open>_iterating\<close> and
  \<open>_moveAfters\<close> belong to \<open>each\<close> and \<open>moveAfter\<close> and are left out.
\<close>

record 'a ObjectList =
  objects :: "'a option list"
  unsorted :: bool
  dirty :: bool
  ol_count :: int

definition ObjectList_new :: "'a ObjectList" where
  "ObjectList_new = \<lparr>objects = [], unsorted = False, dirty = False, ol_count = 0\<rparr>"

text \<open>\<open>Array.indexOf\<close>: the first index holding the value, or \<open>-1\<close>.\<close>

fun indexOf :: "'a list \<Rightarrow> 'a \<Rightarrow> int" where
  "indexOf [] v = - 1"
| "indexOf (x # xs) v =
     (if x = v then 0 else (let i = indexOf xs v in if 0 \<le> i then i + 1 else - 1))"

definition ObjectList_add :: "'a option \<Rightarrow> 'a ObjectList \<Rightarrow> 'a ObjectList" where
  "ObjectList_add object this =
     this\<lparr>objects := objects this @ [object], ol_count := ol_count this + 1,
          unsorted := True\<rparr>"

text \<open>\<open>remove\<close> returns whether it removed, with the list after the call.\<close>

definition ObjectList_remove :: "'a option \<Rightarrow> 'a ObjectList \<Rightarrow> bool \<times> 'a ObjectList" where
  "ObjectList_remove object this =
     (let index = indexOf (objects this) object
      in if 0 \<le> index
         then (True, this\<lparr>objects := (objects this)[nat index := None],
                          ol_count := ol_count this - 1, dirty := True\<rparr>)
         else (False, this))"

definition ObjectList_clear :: "'a ObjectList \<Rightarrow> 'a ObjectList" where
  "ObjectList_clear this =
     this\<lparr>objects := map (\<lambda>_. None) (objects this), ol_count := 0, dirty := True\<rparr>"

text \<open>
  The inner loop of \<open>sort\<close>, entered with \<open>j\<close>: while \<open>j > 0\<close>, both slots \<open>j - 1\<close> and \<open>j\<close>
  hold objects and \<open>compare\<close> of them is positive, swap the two and decrement \<open>j\<close>.
\<close>

fun sort_inner :: "('a \<Rightarrow> 'a \<Rightarrow> number) \<Rightarrow> nat \<Rightarrow> 'a option list \<Rightarrow> 'a option list" where
  "sort_inner compare 0 xs = xs"
| "sort_inner compare (Suc k) xs =
     (case xs ! k of
        None \<Rightarrow> xs
      | Some a \<Rightarrow>
         (case xs ! Suc k of
            None \<Rightarrow> xs
          | Some b \<Rightarrow>
             if compare a b > 0
             then sort_inner compare k (xs[k := Some b, Suc k := Some a])
             else xs))"

lemma length_sort_inner [simp]: "length (sort_inner compare j xs) = length xs"
  by (induction compare j xs rule: sort_inner.induct) (auto split: option.splits)

text \<open>The outer loop: \<open>for (let i = 0; i < this.objects.length - 1; ++i)\<close> with \<open>j = i + 1\<close>.\<close>

function sort_outer :: "('a \<Rightarrow> 'a \<Rightarrow> number) \<Rightarrow> nat \<Rightarrow> 'a option list \<Rightarrow> 'a option list" where
  "sort_outer compare i xs =
     (if int i < int (length xs) - 1
      then sort_outer compare (i + 1) (sort_inner compare (i + 1) xs)
      else xs)"
  by pat_completeness auto
termination
  by (relation "measure (\<lambda>(compare, i, xs). length xs - i)")
     (auto simp del: sort_inner.simps)

definition ObjectList_sort :: "('a \<Rightarrow> 'a \<Rightarrow> number) \<Rightarrow> 'a ObjectList \<Rightarrow> 'a ObjectList" where
  "ObjectList_sort compare this =
     (if unsorted this
      then this\<lparr>objects := sort_outer compare 0 (objects this), unsorted := False\<rparr>
      else this)"

text \<open>
  The loop of \<open>clean\<close>, from \<open>i = length - 1\<close> down to \<open>0\<close>: \<open>clean_loop n\<close> has the \<open>n\<close>
  indices below \<open>n\<close> still to visit, and \<open>splice(i, 1)\<close> drops slot \<open>i\<close>.
\<close>

fun clean_loop :: "nat \<Rightarrow> 'a option list \<Rightarrow> 'a option list" where
  "clean_loop 0 xs = xs"
| "clean_loop (Suc i) xs =
     clean_loop i (if xs ! i = None then take i xs @ drop (Suc i) xs else xs)"

definition ObjectList_clean :: "'a ObjectList \<Rightarrow> 'a ObjectList" where
  "ObjectList_clean this =
     (if dirty this
      then (if ol_count this \<le> 0
            then this\<lparr>objects := []\<rparr>
            else this\<lparr>objects := clean_loop (length (objects this)) (objects this)\<rparr>)
      else this)"

section \<open>Colliders\<close>

text \<open>
  Errors are values. \<open>TypeError\<close> is the error the JavaScript runtime raises when the
  program reads a property of \<open>undefined\<close> or \<open>null\<close>, calls a value that is not a
  function or iterates over a value that is not iterable; the program supplies no message
  for it. \<open>Thrown msg\<close> is an error that the program itself throws with its message, as
  \<open>Engine.assert\<close> does.
\<close>

datatype error = TypeError | Thrown string

definition Engine_assert :: "bool \<Rightarrow> string \<Rightarrow> error + bool" where
  "Engine_assert v message = (if \<not> v then Inl (Thrown message) else Inr v)"

text \<open>
  The registry of overlap tests, its rows and the tag index of a scene are plain objects
  (\<open>{}\<close>). A lookup \<open>obj[key]\<close> that finds no own property goes on to \<open>Object.prototype\<close>,
  so for one of the names below it yields a member of the runtime, not \<open>undefined\<close>.
\<close>

definition Object_prototype_names :: "string list" where
  "Object_prototype_names =
     [''constructor'', ''hasOwnProperty'', ''isPrototypeOf'', ''propertyIsEnumerable'',
      ''toLocaleString'', ''toString'', ''valueOf'', ''__proto__'', ''__defineGetter__'',
      ''__defineSetter__'', ''__lookupGetter__'', ''__lookupSetter__'']"

text \<open>
  The type of a collider is the name of its class, \<open>"Hitbox"\<close> or \<open>"Hitgrid"\<close> in the
  engine, and the key of the registry. A \<open>type_name\<close> is a string other than the
  inherited names: for such a key a lookup in a plain object is the lookup of an own
  property. A collider class named like a member of \<open>Object.prototype\<close> is outside the
  model; for it the registry would hand out, and assign to, objects of the runtime.
\<close>

typedef type_name = "{n :: string. n \<notin> set Object_prototype_names}"
  morphisms name_string Type_name
  by (rule exI [of _ "''Hitbox''"]) (simp add: Object_prototype_names_def)

definition Hitbox_type :: type_name where
  "Hitbox_type = Type_name ''Hitbox''"

definition Hitgrid_type :: type_name where
  "Hitgrid_type = Type_name ''Hitgrid''"

text \<open>
  Entities and colliders are objects in a store, addressed by reference: a collider that
  is moved for a query and then tested against a list that contains it is one object.
  There is one scene; \<open>ent_scene\<close> tells whether \<open>entity.scene\<close> is that scene or \<open>null\<close>.
  A collider carries the fields of \<open>Component\<close> (\<open>entity\<close>, \<open>position\<close>), of \<open>Collider\<close>
  (\<open>type\<close>) and of \<open>Hitbox\<close> (\<open>left\<close>, \<open>top\<close>, \<open>width\<close>, \<open>height\<close>).
\<close>

record Entity =
  ent_x :: number
  ent_y :: number
  ent_scene :: bool

record Collider =
  entity :: "ref option"
  pos_x :: number
  pos_y :: number
  ctype :: type_name
  hb_left :: number
  hb_top :: number
  hb_width :: number
  hb_height :: number

record Scene =
  entities :: "ref \<Rightarrow> Entity"
  components :: "ref \<Rightarrow> Collider"
  colliders :: "string \<Rightarrow> ref list option"

text \<open>
  \<open>allCollidersInTag\<close> returns \<open>this.colliders[tag]\<close> unless that is \<open>undefined\<close>, and a new
  empty list otherwise. \<open>colliders s\<close> holds the own properties of the index. For an
  inherited name without an own list the lookup yields the inherited member, which is
  returned: \<open>None\<close> here, a value that \<open>for ... of\<close> cannot iterate.
\<close>

definition allCollidersInTag :: "Scene \<Rightarrow> string \<Rightarrow> ref list option" where
  "allCollidersInTag s tag =
     (case colliders s tag of
        Some l \<Rightarrow> Some l
      | None \<Rightarrow> if tag \<in> set Object_prototype_names then None else Some [])"

text \<open>\<open>scenePosition\<close>: the position of the entity (or \<open>0\<close> without one) plus the local one.\<close>

definition scenePosition_x :: "Scene \<Rightarrow> ref \<Rightarrow> number" where
  "scenePosition_x s c =
     dadd (case entity (components s c) of Some e \<Rightarrow> ent_x (entities s e) | None \<Rightarrow> 0)
          (pos_x (components s c))"

definition scenePosition_y :: "Scene \<Rightarrow> ref \<Rightarrow> number" where
  "scenePosition_y s c =
     dadd (case entity (components s c) of Some e \<Rightarrow> ent_y (entities s e) | None \<Rightarrow> 0)
          (pos_y (components s c))"

definition sceneLeft :: "Scene \<Rightarrow> ref \<Rightarrow> number" where
  "sceneLeft s c = dadd (scenePosition_x s c) (hb_left (components s c))"

definition sceneRight :: "Scene \<Rightarrow> ref \<Rightarrow> number" where
  "sceneRight s c =
     dadd (dadd (scenePosition_x s c) (hb_left (components s c))) (hb_width (components s c))"

definition sceneTop :: "Scene \<Rightarrow> ref \<Rightarrow> number" where
  "sceneTop s c = dadd (scenePosition_y s c) (hb_top (components s c))"

definition sceneBottom :: "Scene \<Rightarrow> ref \<Rightarrow> number" where
  "sceneBottom s c =
     dadd (dadd (scenePosition_y s c) (hb_top (components s c))) (hb_height (components s c))"

subsection \<open>The registry of overlap tests\<close>

text \<open>
  \<open>Collider.overlaptest\<close> is an object of objects: a row for each type, an entry of the
  row for each other type. A test reads the two colliders (and what they refer to).
  For the keys of type \<open>type_name\<close> the own properties are all that a lookup can find.
\<close>

type_synonym overlap_test = "Scene \<Rightarrow> ref \<Rightarrow> ref \<Rightarrow> bool"

type_synonym registry = "type_name \<Rightarrow> (type_name \<Rightarrow> overlap_test option) option"

definition row :: "registry \<Rightarrow> type_name \<Rightarrow> (type_name \<Rightarrow> overlap_test option)" where
  "row reg t = (case reg t of None \<Rightarrow> Map.empty | Some r \<Rightarrow> r)"

text \<open>
  \<open>registerOverlapTest\<close>: make the two rows if they are missing, then assign
  \<open>[fromType][toType]\<close> and, after it, \<open>[toType][fromType]\<close> with the arguments swapped.
\<close>

definition registerOverlapTest ::
  "type_name \<Rightarrow> type_name \<Rightarrow> overlap_test \<Rightarrow> registry \<Rightarrow> registry" where
  "registerOverlapTest fromType toType test reg =
     (let reg1 = (if reg fromType = None then reg(fromType \<mapsto> Map.empty) else reg);
          reg2 = (if reg1 toType = None then reg1(toType \<mapsto> Map.empty) else reg1);
          reg3 = reg2(fromType \<mapsto> (row reg2 fromType)(toType \<mapsto> (\<lambda>s a b. test s a b)));
          reg4 = reg3(toType \<mapsto> (row reg3 toType)(fromType \<mapsto> (\<lambda>s a b. test s b a)))
      in reg4)"

text \<open>
  \<open>Collider.overlap(a, b)\<close> is \<open>Collider.overlaptest[a.type][b.type](a, b)\<close>: reading a
  property of a missing row, or calling a missing entry, raises.
\<close>

definition overlap :: "registry \<Rightarrow> Scene \<Rightarrow> ref \<Rightarrow> ref \<Rightarrow> error + bool" where
  "overlap reg s a b =
     (case reg (ctype (components s a)) of
        None \<Rightarrow> Inl TypeError
      | Some r \<Rightarrow>
         (case r (ctype (components s b)) of
            None \<Rightarrow> Inl TypeError
          | Some test \<Rightarrow> Inr (test s a b)))"

definition hitbox_hitbox :: overlap_test where
  "hitbox_hitbox s a b =
     (sceneRight s a > sceneLeft s b \<and> sceneBottom s a > sceneTop s b \<and>
      sceneLeft s a < sceneRight s b \<and> sceneTop s a < sceneBottom s b)"

text \<open>
  \<open>DefaultOverlapTests\<close> registers the test of two hitboxes and then the test of a hitbox
  and a hitgrid. The tile grid is not modelled: the second test is the parameter
  \<open>hitbox_hitgrid\<close>.
\<close>

definition DefaultOverlapTests :: "overlap_test \<Rightarrow> registry \<Rightarrow> registry" where
  "DefaultOverlapTests hitbox_hitgrid reg =
     registerOverlapTest Hitbox_type Hitgrid_type hitbox_hitgrid
       (registerOverlapTest Hitbox_type Hitbox_type hitbox_hitbox reg)"

subsection \<open>Queries\<close>

text \<open>
  \<open>this.x += dx; this.y += dy\<close> and \<open>this.x -= dx; this.y -= dy\<close> on the local position:
  each is a rounded operation, so the second need not undo the first.
\<close>

definition translate :: "ref \<Rightarrow> number \<Rightarrow> number \<Rightarrow> Scene \<Rightarrow> Scene" where
  "translate this dx dy s =
     s\<lparr>components := (components s)(this := (components s this)
          \<lparr>pos_x := dadd (pos_x (components s this)) dx,
           pos_y := dadd (pos_y (components s this)) dy\<rparr>)\<rparr>"

definition translate_back :: "ref \<Rightarrow> number \<Rightarrow> number \<Rightarrow> Scene \<Rightarrow> Scene" where
  "translate_back this dx dy s =
     s\<lparr>components := (components s)(this := (components s this)
          \<lparr>pos_x := dsub (pos_x (components s this)) dx,
           pos_y := dsub (pos_y (components s this)) dy\<rparr>)\<rparr>"

text \<open>The loop of \<open>collide\<close>: the first collider of the list that overlaps, or \<open>null\<close>.\<close>

fun first_overlap :: "registry \<Rightarrow> Scene \<Rightarrow> ref \<Rightarrow> ref list \<Rightarrow> error + ref option" where
  "first_overlap reg s this [] = Inr None"
| "first_overlap reg s this (other # rest) =
     (case overlap reg s this other of
        Inl e \<Rightarrow> Inl e
      | Inr b \<Rightarrow> if b then Inr (Some other) else first_overlap reg s this rest)"

text \<open>The loop of \<open>collideAll\<close>: every collider of the list that overlaps, in order.\<close>

fun all_overlaps :: "registry \<Rightarrow> Scene \<Rightarrow> ref \<Rightarrow> ref list \<Rightarrow> error + ref list" where
  "all_overlaps reg s this [] = Inr []"
| "all_overlaps reg s this (other # rest) =
     (case overlap reg s this other of
        Inl e \<Rightarrow> Inl e
      | Inr b \<Rightarrow>
         (case all_overlaps reg s this rest of
            Inl e \<Rightarrow> Inl e
          | Inr l \<Rightarrow> Inr (if b then other # l else l)))"

text \<open>
  A query returns its result, or the error that ended it, with the scene as the call
  leaves it. \<open>this.entity.scene\<close> raises when the collider has no entity or the entity
  no scene. The loop starts after the position has been translated; an error of the
  loop, or a value that it cannot iterate, leaves the function at once.
\<close>

definition collide ::
  "registry \<Rightarrow> ref \<Rightarrow> string \<Rightarrow> number option \<Rightarrow> number option \<Rightarrow> Scene
     \<Rightarrow> (error + ref option) \<times> Scene" where
  "collide reg this tag x y s =
     (case entity (components s this) of
        None \<Rightarrow> (Inl TypeError, s)
      | Some e \<Rightarrow>
         if \<not> ent_scene (entities s e) then (Inl TypeError, s)
         else
           (let against = allCollidersInTag s tag;
                s1 = translate this (or_default x 0) (or_default y 0) s
            in case against of
                 None \<Rightarrow> (Inl TypeError, s1)
               | Some list \<Rightarrow>
                  (case first_overlap reg s1 this list of
                     Inl err \<Rightarrow> (Inl err, s1)
                   | Inr result \<Rightarrow>
                       (Inr result, translate_back this (or_default x 0) (or_default y 0) s1))))"

definition collideAll ::
  "registry \<Rightarrow> ref \<Rightarrow> string \<Rightarrow> number option \<Rightarrow> number option \<Rightarrow> Scene
     \<Rightarrow> (error + ref list) \<times> Scene" where
  "collideAll reg this tag x y s =
     (case entity (components s this) of
        None \<Rightarrow> (Inl TypeError, s)
      | Some e \<Rightarrow>
         if \<not> ent_scene (entities s e) then (Inl TypeError, s)
         else
           (let against = allCollidersInTag s tag;
                s1 = translate this (or_default x 0) (or_default y 0) s
            in case against of
                 None \<Rightarrow> (Inl TypeError, s1)
               | Some list \<Rightarrow>
                  (case all_overlaps reg s1 this list of
                     Inl err \<Rightarrow> (Inl err, s1)
                   | Inr found \<Rightarrow>
                       (Inr found, translate_back this (or_default x 0) (or_default y 0) s1))))"

definition check ::
  "registry \<Rightarrow> ref \<Rightarrow> string \<Rightarrow> number option \<Rightarrow> number option \<Rightarrow> Scene
     \<Rightarrow> (error + bool) \<times> Scene" where
  "check reg this tag x y s =
     (case collide reg this tag x y s of
        (Inl err, s') \<Rightarrow> (Inl err, s')
      | (Inr result, s') \<Rightarrow> (Inr (result \<noteq> None), s'))"

fun collides ::
  "registry \<Rightarrow> ref \<Rightarrow> string list \<Rightarrow> number option \<Rightarrow> number option \<Rightarrow> Scene
     \<Rightarrow> (error + ref option) \<times> Scene" where
  "collides reg this [] x y s = (Inr None, s)"
| "collides reg this (tag # tags) x y s =
     (case collide reg this tag x y s of
        (Inl err, s') \<Rightarrow> (Inl err, s')
      | (Inr (Some hit), s') \<Rightarrow> (Inr (Some hit), s')
      | (Inr None, s') \<Rightarrow> collides reg this tags x y s')"

fun checks ::
  "registry \<Rightarrow> ref \<Rightarrow> string list \<Rightarrow> number option \<Rightarrow> number option \<Rightarrow> Scene
     \<Rightarrow> (error + bool) \<times> Scene" where
  "checks reg this [] x y s = (Inr False, s)"
| "checks reg this (tag # tags) x y s =
     (case collide reg this tag x y s of
        (Inl err, s') \<Rightarrow> (Inl err, s')
      | (Inr (Some hit), s') \<Rightarrow> (Inr True, s')
      | (Inr None, s') \<Rightarrow> checks reg this tags x y s')"

section \<open>Physics\<close>

text \<open>
  A \<open>Physics\<close> mover is a hitbox of the scene (the reference \<open>this\<close>) with the fields
  below. The collision callbacks are functions of the game: \<open>'cb\<close> names them, and a
  call is recorded, with its arguments, at the end of \<open>calls\<close>. \<open>Call1 cb hit\<close> is
  \<open>cb(hit)\<close>, the call of a per-axis callback; \<open>Call2 cb horizontal hit\<close> is
  \<open>cb(horizontal, hit)\<close>, the call of a callback of the list \<open>onCollide\<close>.
\<close>

datatype 'cb call = Call1 'cb ref | Call2 'cb bool ref

record 'cb Physics =
  solids :: "string list"
  onCollide :: "'cb list"
  onCollideX :: "'cb option"
  onCollideY :: "'cb option"
  speed_x :: number
  speed_y :: number
  remainder_x :: number
  remainder_y :: number

record 'cb World =
  scene :: Scene
  physics :: "'cb Physics"
  calls :: "'cb call list"

text \<open>\<open>hit && hit.entity ? hit.entity === entity : false\<close>\<close>

definition isMe :: "Scene \<Rightarrow> ref option \<Rightarrow> ref option \<Rightarrow> bool" where
  "isMe s hit entity' =
     (case hit of
        None \<Rightarrow> False
      | Some h \<Rightarrow>
         (case entity (components s h) of
            None \<Rightarrow> False
          | Some e \<Rightarrow> Some e = entity'))"

text \<open>The collider that blocks the step: \<open>hit != null && !isMe\<close>.\<close>

definition blocking :: "Scene \<Rightarrow> ref option \<Rightarrow> ref option \<Rightarrow> ref option" where
  "blocking s hit entity' =
     (case hit of None \<Rightarrow> None | Some h \<Rightarrow> if \<not> isMe s hit entity' then Some h else None)"

text \<open>The calls of a blocked attempt: the per-axis callback if it is set, then the list.\<close>

definition collision_calls :: "'cb option \<Rightarrow> 'cb list \<Rightarrow> bool \<Rightarrow> ref \<Rightarrow> 'cb call list" where
  "collision_calls axis general horizontal hit =
     (case axis of None \<Rightarrow> [] | Some cb \<Rightarrow> [Call1 cb hit])
     @ map (\<lambda>cb. Call2 cb horizontal hit) general"

text \<open>\<open>entity.x += d\<close> and \<open>entity.y += d\<close>\<close>

definition entity_add_x :: "ref \<Rightarrow> number \<Rightarrow> Scene \<Rightarrow> Scene" where
  "entity_add_x e d s =
     s\<lparr>entities := (entities s)(e := (entities s e)\<lparr>ent_x := dadd (ent_x (entities s e)) d\<rparr>)\<rparr>"

definition entity_add_y :: "ref \<Rightarrow> number \<Rightarrow> Scene \<Rightarrow> Scene" where
  "entity_add_y e d s =
     s\<lparr>entities := (entities s)(e := (entities s e)\<lparr>ent_y := dadd (ent_y (entities s e)) d\<rparr>)\<rparr>"

text \<open>
  The loop \<open>while (amount > 0)\<close> of \<open>moveXAbsolute\<close>, with the captured \<open>entity\<close>, the sign
  and the number of unit steps left. \<open>entity.x += sign\<close> raises when there is no entity.
\<close>

fun moveX_loop ::
  "registry \<Rightarrow> ref \<Rightarrow> ref option \<Rightarrow> number \<Rightarrow> nat \<Rightarrow> 'cb World \<Rightarrow> (error + bool) \<times> 'cb World" where
  "moveX_loop reg this entity' sign 0 w = (Inr True, w)"
| "moveX_loop reg this entity' sign (Suc amount) w =
     (case collides reg this (solids (physics w)) (Some sign) (Some 0) (scene w) of
        (Inl err, s') \<Rightarrow> (Inl err, w\<lparr>scene := s'\<rparr>)
      | (Inr hit, s') \<Rightarrow>
         (case blocking s' hit entity' of
            Some h \<Rightarrow>
              (Inr False,
               w\<lparr>scene := s',
                 physics := (physics w)\<lparr>remainder_x := 0\<rparr>,
                 calls := calls w @ collision_calls (onCollideX (physics w))
                            (onCollide (physics w)) True h\<rparr>)
          | None \<Rightarrow>
              (case entity' of
                 None \<Rightarrow> (Inl TypeError, w\<lparr>scene := s'\<rparr>)
               | Some e \<Rightarrow>
                   moveX_loop reg this entity' sign amount
                     (w\<lparr>scene := entity_add_x e sign s'\<rparr>))))"

text \<open>
  The number of unit steps: \<open>Math.abs(Math.round(amount))\<close>, a natural number. The loop
  counts it down exactly, as \<open>amount -= 1\<close> does for a count up to \<open>2 ^ 53\<close>; a larger
  count is beyond the model.
\<close>

definition unit_steps :: "number \<Rightarrow> nat" where
  "unit_steps amount = nat \<lfloor>\<bar>Math_round amount\<bar>\<rfloor>"

definition moveXAbsolute ::
  "registry \<Rightarrow> ref \<Rightarrow> number \<Rightarrow> 'cb World \<Rightarrow> (error + bool) \<times> 'cb World" where
  "moveXAbsolute reg this amount w =
     (let entity' = entity (components (scene w) this)
      in if length (solids (physics w)) \<le> 0
         then (case entity' of
                 None \<Rightarrow> (Inl TypeError, w)
               | Some e \<Rightarrow>
                   (Inr True, w\<lparr>scene := entity_add_x e (Math_round amount) (scene w)\<rparr>))
         else moveX_loop reg this entity' (Calc_sign amount) (unit_steps amount) w)"

text \<open>
  \<open>moveX\<close>: the sum and the difference are rounded; \<open>moveBy % 1\<close> is exact.
\<close>

definition moveX ::
  "registry \<Rightarrow> ref \<Rightarrow> number \<Rightarrow> 'cb World \<Rightarrow> (error + bool) \<times> 'cb World" where
  "moveX reg this amount w =
     (let moveBy = dadd amount (remainder_x (physics w));
          w1 = w\<lparr>physics := (physics w)\<lparr>remainder_x := mod1 moveBy\<rparr>\<rparr>;
          moveBy = dsub moveBy (remainder_x (physics w1))
      in moveXAbsolute reg this moveBy w1)"

fun moveY_loop ::
  "registry \<Rightarrow> ref \<Rightarrow> ref option \<Rightarrow> number \<Rightarrow> nat \<Rightarrow> 'cb World \<Rightarrow> (error + bool) \<times> 'cb World" where
  "moveY_loop reg this entity' sign 0 w = (Inr True, w)"
| "moveY_loop reg this entity' sign (Suc amount) w =
     (case collides reg this (solids (physics w)) (Some 0) (Some sign) (scene w) of
        (Inl err, s') \<Rightarrow> (Inl err, w\<lparr>scene := s'\<rparr>)
      | (Inr hit, s') \<Rightarrow>
         (case blocking s' hit entity' of
            Some h \<Rightarrow>
              (Inr False,
               w\<lparr>scene := s',
                 physics := (physics w)\<lparr>remainder_y := 0\<rparr>,
                 calls := calls w @ collision_calls (onCollideY (physics w))
                            (onCollide (physics w)) False h\<rparr>)
          | None \<Rightarrow>
              (case entity' of
                 None \<Rightarrow> (Inl TypeError, w\<lparr>scene := s'\<rparr>)
               | Some e \<Rightarrow>
                   moveY_loop reg this entity' sign amount
                     (w\<lparr>scene := entity_add_y e sign s'\<rparr>))))"

definition moveYAbsolute ::
  "registry \<Rightarrow> ref \<Rightarrow> number \<Rightarrow> 'cb World \<Rightarrow> (error + bool) \<times> 'cb World" where
  "moveYAbsolute reg this amount w =
     (let entity' = entity (components (scene w) this)
      in if length (solids (physics w)) \<le> 0
         then (case entity' of
                 None \<Rightarrow> (Inl TypeError, w)
               | Some e \<Rightarrow>
                   (Inr True, w\<lparr>scene := entity_add_y e (Math_round amount) (scene w)\<rparr>))
         else moveY_loop reg this entity' (Calc_sign amount) (unit_steps amount) w)"

definition moveY ::
  "registry \<Rightarrow> ref \<Rightarrow> number \<Rightarrow> 'cb World \<Rightarrow> (error + bool) \<times> 'cb World" where
  "moveY reg this amount w =
     (let moveBy = dadd amount (remainder_y (physics w));
          w1 = w\<lparr>physics := (physics w)\<lparr>remainder_y := mod1 moveBy\<rparr>\<rparr>;
          moveBy = dsub moveBy (remainder_y (physics w1))
      in moveYAbsolute reg this moveBy w1)"

text \<open>
  \<open>update\<close>, with \<open>Engine.delta\<close> as the parameter \<open>delta\<close>. An error of \<open>moveX\<close> ends the
  call before \<open>moveY\<close>.
\<close>

definition update ::
  "registry \<Rightarrow> ref \<Rightarrow> number \<Rightarrow> 'cb World \<Rightarrow> (error + unit) \<times> 'cb World" where
  "update reg this delta w =
     (case (if speed_x (physics w) \<noteq> 0
            then moveX reg this (dmul (speed_x (physics w)) delta) w
            else (Inr True, w)) of
        (Inl err, w1) \<Rightarrow> (Inl err, w1)
      | (Inr movedX, w1) \<Rightarrow>
         (case (if speed_y (physics w1) \<noteq> 0
                then moveY reg this (dmul (speed_y (physics w1)) delta) w1
                else (Inr True, w1)) of
            (Inl err, w2) \<Rightarrow> (Inl err, w2)
          | (Inr movedY, w2) \<Rightarrow> (Inr (), w2)))"

section \<open>Derived notions used in the statements\<close>







text \<open>A pair of types has a test when the row exists and holds an entry for the second type.\<close>

definition registered :: "registry \<Rightarrow> type_name \<Rightarrow> type_name \<Rightarrow> bool" where
  "registered reg A B =
     (case reg A of None \<Rightarrow> False | Some r \<Rightarrow> (case r B of None \<Rightarrow> False | Some t \<Rightarrow> True))"

text \<open>
  The position of a collider after a query that returns: translated by \<open>(dx, dy)\<close> and
  back, in the arithmetic of doubles.
\<close>

definition there_and_back :: "ref \<Rightarrow> number \<Rightarrow> number \<Rightarrow> Scene \<Rightarrow> Scene" where
  "there_and_back this dx dy s = translate_back this dx dy (translate this dx dy s)"

text \<open>
  The translation of a collider by \<open>(dx, dy)\<close> is exact: its position is a pair of
  doubles and both sums are doubles.
\<close>

definition exact_translation :: "ref \<Rightarrow> number \<Rightarrow> number \<Rightarrow> Scene \<Rightarrow> bool" where
  "exact_translation this dx dy s =
     (fl (pos_x (components s this)) = pos_x (components s this)
      \<and> fl (pos_y (components s this)) = pos_y (components s this)
      \<and> fl (pos_x (components s this) + dx) = pos_x (components s this) + dx
      \<and> fl (pos_y (components s this) + dy) = pos_y (components s this) + dy)"


text \<open>
  One probe of a sweep: the query \<open>collides\<close> with the unit offset, then the test that
  leaves out the mover's own entity. \<open>Inr None\<close> is a free step, \<open>Inr (Some h)\<close> a step
  that \<open>h\<close> blocks.
\<close>

definition probe ::
  "registry \<Rightarrow> ref \<Rightarrow> string list \<Rightarrow> number \<Rightarrow> number \<Rightarrow> ref option \<Rightarrow> Scene
     \<Rightarrow> error + ref option" where
  "probe reg this tags dx dy entity' s =
     (case collides reg this tags (Some dx) (Some dy) s of
        (Inl err, s') \<Rightarrow> Inl err
      | (Inr hit, s') \<Rightarrow> Inr (blocking s' hit entity'))"



text \<open>\<open>moveX(amount)\<close> called \<open>n\<close> times in a row, the results dropped.\<close>

fun moveX_times :: "registry \<Rightarrow> ref \<Rightarrow> number \<Rightarrow> nat \<Rightarrow> 'cb World \<Rightarrow> 'cb World" where
  "moveX_times reg this amount 0 w = w"
| "moveX_times reg this amount (Suc n) w =
     moveX_times reg this amount n (snd (moveX reg this amount w))"

text \<open>
  The second test of \<open>cropRect\<close> compares \<open>r.y\<close> with \<open>this.x\<close>. On the inputs below it
  decides as the comparison with \<open>this.y\<close> would.
\<close>

definition top_test_agrees :: "Rectangle \<Rightarrow> Rectangle \<Rightarrow> bool" where
  "top_test_agrees this r = ((rect_y r < rect_x this) = (rect_y r < rect_y this))"

text \<open>
  One axis of \<open>cropRect\<close> on its own: the start \<open>p\<close> and the extent \<open>e\<close> of \<open>r\<close>, clipped
  to \<open>[lo, hi]\<close>, where the first test compares \<open>p\<close> with \<open>c\<close>.
\<close>

definition clip_axis :: "number \<Rightarrow> number \<Rightarrow> number \<Rightarrow> number \<Rightarrow> number \<Rightarrow> number \<times> number" where
  "clip_axis c lo hi p e =
     (let p1 = (if p < c then lo else p);
          e1 = (if p < c then e + (p - lo) else e);
          p2 = (if p1 > hi then hi else p1);
          e2 = (if p1 > hi then 0 else e1);
          e3 = (if p2 + e2 > hi then hi - p2 else e2)
      in (p2, e3))"

section \<open>Concrete inputs\<close>

text \<open>The doubles nearest to \<open>0.1\<close>, \<open>0.2\<close> and \<open>1 / 60\<close>.\<close>

definition tenth :: number where
  "tenth = 3602879701896397 / 36028797018963968"

definition fifth :: number where
  "fifth = 3602879701896397 / 18014398509481984"

definition sixtieth :: number where
  "sixtieth = 4803839602528529 / 288230376151711744"

definition target_0_10 :: Rectangle where
  "target_0_10 = \<lparr>rect_x = 0, rect_y = 10, rect_width = 10, rect_height = 10\<rparr>"

definition above_target :: Rectangle where
  "above_target = \<lparr>rect_x = 0, rect_y = 5, rect_width = 5, rect_height = 5\<rparr>"

definition target_50_0 :: Rectangle where
  "target_50_0 = \<lparr>rect_x = 50, rect_y = 0, rect_width = 10, rect_height = 10\<rparr>"

definition below_target :: Rectangle where
  "below_target = \<lparr>rect_x = 50, rect_y = 60, rect_width = 5, rect_height = 5\<rparr>"

definition target_origin :: Rectangle where
  "target_origin = \<lparr>rect_x = 0, rect_y = 0, rect_width = 10, rect_height = 10\<rparr>"

definition left_of_target :: Rectangle where
  "left_of_target = \<lparr>rect_x = - 10, rect_y = 0, rect_width = 5, rect_height = 5\<rparr>"

text \<open>A list after \<open>add(1)\<close>, \<open>add(2)\<close>, and the same list after \<open>remove(1)\<close>.\<close>

definition two_objects :: "nat ObjectList" where
  "two_objects = ObjectList_add (Some 2) (ObjectList_add (Some 1) ObjectList_new)"

definition one_removed :: "nat ObjectList" where
  "one_removed = snd (ObjectList_remove (Some 1) two_objects)"








text \<open>The constructor of \<open>Hitbox\<close> without tags, and a hitgrid (its tiles left out).\<close>

definition Hitbox_new :: "number \<Rightarrow> number \<Rightarrow> number \<Rightarrow> number \<Rightarrow> Collider" where
  "Hitbox_new l t w h =
     \<lparr>entity = None, pos_x = 0, pos_y = 0, ctype = Hitbox_type,
      hb_left = l, hb_top = t, hb_width = w, hb_height = h\<rparr>"

definition Hitgrid_new :: Collider where
  "Hitgrid_new =
     \<lparr>entity = None, pos_x = 0, pos_y = 0, ctype = Hitgrid_type,
      hb_left = 0, hb_top = 0, hb_width = 0, hb_height = 0\<rparr>"

definition no_tiles :: overlap_test where
  "no_tiles s a b = False"

definition default_registry :: registry where
  "default_registry = DefaultOverlapTests no_tiles Map.empty"

definition origin_entity :: Entity where
  "origin_entity = \<lparr>ent_x = 0, ent_y = 0, ent_scene = True\<rparr>"

text \<open>Three free hitboxes: \<open>(0,0,10,10)\<close>, \<open>(10,0,10,10)\<close> and \<open>(9,0,10,10)\<close>.\<close>

definition boxes_scene :: Scene where
  "boxes_scene =
     \<lparr>entities = (\<lambda>_. origin_entity),
      components = (\<lambda>_. Hitbox_new 0 0 10 10)
         (1 := Hitbox_new 10 0 10 10, 2 := Hitbox_new 9 0 10 10),
      colliders = Map.empty\<rparr>"

text \<open>A hitgrid of entity \<open>0\<close> and a hitgrid tagged \<open>solid\<close>.\<close>

definition grids_scene :: Scene where
  "grids_scene =
     \<lparr>entities = (\<lambda>_. origin_entity),
      components = (\<lambda>_. Hitgrid_new)(0 := Hitgrid_new\<lparr>entity := Some 0\<rparr>),
      colliders = [''solid'' \<mapsto> [1]]\<rparr>"

text \<open>
  A mover \<open>(0,0,10,10)\<close> of entity \<open>0\<close>, and two solids of entity \<open>1\<close>: one to its right
  at \<open>(11,0,10,10)\<close>, one below it at \<open>(0,11,10,10)\<close>, each one unit away.
\<close>

definition solid_scene :: Scene where
  "solid_scene =
     \<lparr>entities = (\<lambda>_. origin_entity),
      components = (\<lambda>_. (Hitbox_new 0 0 10 10)\<lparr>entity := Some 0\<rparr>)
         (1 := (Hitbox_new 11 0 10 10)\<lparr>entity := Some 1\<rparr>,
          2 := (Hitbox_new 0 11 10 10)\<lparr>entity := Some 1\<rparr>),
      colliders = [''solid'' \<mapsto> [1, 2]]\<rparr>"

text \<open>
  The same scene with the mover at the local position \<open>(0.1, 0)\<close>.
\<close>

definition offset_scene :: Scene where
  "offset_scene =
     solid_scene\<lparr>components := (components solid_scene)
        (0 := (components solid_scene 0)\<lparr>pos_x := tenth\<rparr>)\<rparr>"


definition ghost_world :: "string World" where
  "ghost_world =
     \<lparr>scene = solid_scene,
      physics = \<lparr>solids = [], onCollide = [''first'', ''second''],
                 onCollideX = Some ''onX'', onCollideY = None,
                 speed_x = 30, speed_y = 0, remainder_x = 0, remainder_y = 0\<rparr>,
      calls = []\<rparr>"

section \<open>Properties of the rounding\<close>

text \<open>
  The exponent that \<open>floor_log2\<close> computes is the binary exponent. \<open>round_to\<close> yields a
  multiple of the unit in the last place that is nearest to its argument, and the numbers
  of the format are its fixed points.
\<close>

lemma int_bounds_powi:
  assumes "0 < (p::int)"
  shows "2 powi (bitlen p - 1) \<le> (of_int p :: rat)" and "(of_int p :: rat) < 2 powi bitlen p"
proof -
  have b: "1 \<le> bitlen p"
    using assms by (auto simp: bitlen_alt_def)
  have "2 ^ nat (bitlen p - 1) \<le> p" and "p < 2 ^ nat (bitlen p)"
    using bitlen_bounds [OF assms] by simp_all
  then have "(of_int (2 ^ nat (bitlen p - 1)) :: rat) \<le> of_int p"
    and "(of_int p :: rat) < of_int (2 ^ nat (bitlen p))"
    by (simp_all only: of_int_le_iff of_int_less_iff)
  then show "2 powi (bitlen p - 1) \<le> (of_int p :: rat)" and "(of_int p :: rat) < 2 powi bitlen p"
    using b by (simp_all add: power_int_nonneg_exp)
qed

lemma floor_log2_bounds:
  assumes "x \<noteq> 0"
  shows "2 powi floor_log2 x \<le> \<bar>x\<bar>" and "\<bar>x\<bar> < 2 powi (floor_log2 x + 1)"
proof -
  obtain p q where pq: "quotient_of \<bar>x\<bar> = (p, q)"
    by (cases "quotient_of \<bar>x\<bar>")
  have q: "0 < q"
    using pq by (rule quotient_of_denom_pos)
  have x: "\<bar>x\<bar> = of_int p / of_int q"
    using pq by (rule quotient_of_div)
  have "0 < \<bar>x\<bar>"
    using assms by simp
  then have "0 < (of_int p :: rat)"
    using q unfolding x by (simp add: zero_less_divide_iff)
  then have p: "0 < p"
    by simp
  let ?d = "bitlen p - bitlen q"
  note P = int_bounds_powi [OF p] and Q = int_bounds_powi [OF q]
  have qpos: "0 < (of_int q :: rat)"
    using q by simp
  have up: "\<bar>x\<bar> < 2 powi (?d + 1)"
  proof -
    have "of_int p / of_int q < 2 powi bitlen p / (of_int q :: rat)"
      using P(2) qpos by (simp add: divide_strict_right_mono)
    also have "\<dots> \<le> 2 powi bitlen p / 2 powi (bitlen q - 1)"
      using Q(1) qpos by (intro divide_left_mono) (auto intro: mult_pos_pos)
    also have "\<dots> = 2 powi (bitlen p - (bitlen q - 1))"
      by (rule power_int_diff [symmetric]) simp
    also have "bitlen p - (bitlen q - 1) = ?d + 1"
      by simp
    finally show ?thesis
      unfolding x .
  qed
  have low: "2 powi (?d - 1) \<le> \<bar>x\<bar>"
  proof -
    have "?d - 1 = bitlen p - 1 - bitlen q"
      by simp
    then have "(2 powi (?d - 1) :: rat) = 2 powi (bitlen p - 1 - bitlen q)"
      by (rule arg_cong)
    also have "\<dots> = 2 powi (bitlen p - 1) / (2 powi bitlen q :: rat)"
      by (rule power_int_diff) simp
    also have "\<dots> \<le> of_int p / 2 powi bitlen q"
      using P(1) by (simp add: divide_right_mono)
    also have "\<dots> \<le> of_int p / of_int q"
      using Q(2) p qpos by (intro divide_left_mono) (auto intro: mult_pos_pos)
    finally show ?thesis
      unfolding x .
  qed
  have fl2: "floor_log2 x = (if 2 powi ?d \<le> \<bar>x\<bar> then ?d else ?d - 1)"
    by (simp add: floor_log2_def pq)
  show "2 powi floor_log2 x \<le> \<bar>x\<bar>"
    using low by (simp add: fl2)
  show "\<bar>x\<bar> < 2 powi (floor_log2 x + 1)"
    using up by (auto simp: fl2 not_le)
qed

lemma floor_log2_unique:
  assumes "2 powi e \<le> \<bar>x\<bar>" and "\<bar>x\<bar> < 2 powi (e + 1)"
  shows "floor_log2 x = e"
proof -
  have "0 < \<bar>x\<bar>"
    using assms(1) by (rule less_le_trans [rotated]) simp
  then have x: "x \<noteq> 0"
    by simp
  note B = floor_log2_bounds [OF x]
  have "(2::rat) powi e < 2 powi (floor_log2 x + 1)"
    using assms(1) B(2) by simp
  then have a: "e < floor_log2 x + 1"
    by (metis linorder_not_less one_less_numeral_iff power_int_increasing semiring_norm(76) less_imp_le)
  have "(2::rat) powi floor_log2 x < 2 powi (e + 1)"
    using assms(2) B(1) by simp
  then have b: "floor_log2 x < e + 1"
    by (metis linorder_not_less one_less_numeral_iff power_int_increasing semiring_norm(76) less_imp_le)
  show ?thesis
    using a b by simp
qed

lemma round_even_of_int [simp]: "round_even (of_int z) = z"
  by (simp add: round_even_def)

lemma round_to_exact:
  assumes "\<bar>m\<bar> < 2 ^ p" and "emin - int p + 1 \<le> k"
  shows "round_to p emin (of_int m * 2 powi k) = of_int m * 2 powi k"
proof (cases "m = 0")
  case True
  then show ?thesis by (simp add: round_to_def)
next
  case False
  let ?x = "of_int m * 2 powi k :: rat"
  have x: "?x \<noteq> 0"
    using False by simp
  let ?e = "max (floor_log2 ?x) emin"
  have "2 powi floor_log2 ?x \<le> \<bar>?x\<bar>"
    using x by (rule floor_log2_bounds)
  also have "\<bar>?x\<bar> = \<bar>of_int m\<bar> * 2 powi k"
    by (simp add: abs_mult)
  also have "\<dots> < 2 ^ p * 2 powi k"
  proof -
    have "(of_int \<bar>m\<bar> :: rat) < of_int (2 ^ p)"
      using assms(1) by (simp only: of_int_less_iff)
    then show ?thesis
      by (simp add: mult_strict_right_mono)
  qed
  also have "\<dots> = 2 powi (int p + k)"
    by (simp add: power_int_add)
  finally have "floor_log2 ?x < int p + k"
    by (metis linorder_not_less one_less_numeral_iff power_int_increasing semiring_norm(76) less_imp_le)
  then have le: "?e - int p + 1 \<le> k"
    using assms(2) by (simp add: max_def)
  define E where "E = ?e - int p + 1"
  define j where "j = nat (k - E)"
  have k: "k = E + int j"
    using le by (simp add: j_def E_def)
  have pk: "(2 powi k :: rat) = 2 powi E * 2 ^ j"
    unfolding k by (simp add: power_int_add)
  have "?x / 2 powi E = of_int (m * 2 ^ j)"
    unfolding pk by simp
  then have "round_even (?x / 2 powi E) = m * 2 ^ j"
    by (simp only: round_even_of_int)
  then have "round_to p emin ?x = of_int (m * 2 ^ j) * 2 powi E"
    using x by (simp add: round_to_def Let_def E_def)
  also have "\<dots> = of_int m * (2 powi E * 2 ^ j)"
    by simp
  finally show ?thesis
    unfolding pk .
qed

lemma fl_of_int:
  assumes "\<bar>n\<bar> < 2 ^ 53"
  shows "fl (of_int n) = of_int n"
  using round_to_exact [of n 53 "- 1022" 0] assms by (simp add: fl_def)

lemma fl_0 [simp]: "fl 0 = 0"
  by (simp add: fl_def round_to_def)

lemma fl_1 [simp]: "fl 1 = 1"
  using fl_of_int [of 1] by simp

lemma fl_neg_1 [simp]: "fl (- 1) = - 1"
  using fl_of_int [of "- 1"] by simp

lemma fl_numeral [simp]: "(numeral n :: int) < 2 ^ 53 \<Longrightarrow> fl (numeral n) = numeral n"
  using fl_of_int [of "numeral n"] by simp

lemma fl_neg_numeral [simp]: "(numeral n :: int) < 2 ^ 53 \<Longrightarrow> fl (- numeral n) = - numeral n"
  using fl_of_int [of "- numeral n"] by simp

lemma fl32_0 [simp]: "fl32 0 = 0"
  by (simp add: fl32_def round_to_def)

lemma round_even_near: "\<bar>y - of_int (round_even y)\<bar> \<le> 1 / 2"
proof -
  have "0 \<le> y - of_int \<lfloor>y\<rfloor>" and "y - of_int \<lfloor>y\<rfloor> < 1"
    using floor_correct [of y] by simp_all
  then show ?thesis
    unfolding round_even_def Let_def by (simp add: abs_if) linarith
qed

text \<open>The result is within half a unit in the last place of the argument.\<close>

lemma round_to_near:
  "\<bar>x - round_to p emin x\<bar> \<le> 2 powi (max (floor_log2 x) emin - int p + 1) / 2"
proof (cases "x = 0")
  case True
  then show ?thesis by (simp add: round_to_def)
next
  case False
  define u :: rat where "u = 2 powi (max (floor_log2 x) emin - int p + 1)"
  have u: "0 < u"
    by (simp add: u_def)
  have "x - round_to p emin x = u * (x / u - of_int (round_even (x / u)))"
    using False u by (simp add: round_to_def Let_def u_def algebra_simps)
  then have "\<bar>x - round_to p emin x\<bar> = u * \<bar>x / u - of_int (round_even (x / u))\<bar>"
    using u by (simp add: abs_mult)
  also have "\<dots> \<le> u * (1 / 2)"
    using u round_even_near [of "x / u"] by (intro mult_left_mono) simp_all
  finally show ?thesis
    by (simp add: u_def)
qed

lemma round_even_bounds: "\<lfloor>y\<rfloor> \<le> round_even y" "round_even y \<le> \<lfloor>y\<rfloor> + 1"
  by (simp_all add: round_even_def Let_def)

lemma round_to_structure:
  assumes "0 < p"
  shows "\<exists>m k. round_to p emin x = of_int m * 2 powi k \<and> \<bar>m\<bar> \<le> 2 ^ p \<and> emin - int p + 1 \<le> k"
proof (cases "x = 0")
  case True
  then have "round_to p emin x = of_int 0 * 2 powi (emin - int p + 1)"
    by (simp add: round_to_def)
  then show ?thesis
    by (intro exI [of _ 0] exI [of _ "emin - int p + 1"]) simp
next
  case False
  define e where "e = max (floor_log2 x) emin"
  define u :: rat where "u = 2 powi (e - int p + 1)"
  define m where "m = round_even (x / u)"
  have u: "0 < u"
    by (simp add: u_def)
  have r: "round_to p emin x = of_int m * 2 powi (e - int p + 1)"
    using False by (simp add: round_to_def Let_def e_def u_def m_def)
  have "\<bar>x\<bar> < 2 powi (floor_log2 x + 1)"
    using False by (rule floor_log2_bounds)
  also have "\<dots> \<le> 2 powi (e + 1)"
    by (rule power_int_increasing) (simp_all add: e_def)
  finally have "\<bar>x\<bar> / u < 2 powi (e + 1) / u"
    using u by (simp add: divide_strict_right_mono)
  also have "2 powi (e + 1) / u = 2 powi (e + 1 - (e - int p + 1))"
    unfolding u_def by (rule power_int_diff [symmetric]) simp
  also have "e + 1 - (e - int p + 1) = int p"
    by simp
  finally have "\<bar>x / u\<bar> < of_int (2 ^ p)"
    using u by (simp add: abs_divide)
  then have "x / u < of_int (2 ^ p) \<and> - of_int (2 ^ p) < x / u"
    unfolding abs_less_iff by linarith
  then have up: "x / u < of_int (2 ^ p)" and lo: "of_int (- (2 ^ p)) < x / u"
    by simp_all
  have "\<lfloor>x / u\<rfloor> < 2 ^ p"
    using up by (simp only: floor_less_iff)
  moreover have "- (2 ^ p) \<le> \<lfloor>x / u\<rfloor>"
    using lo by (simp only: le_floor_iff)
  ultimately have "\<bar>m\<bar> \<le> 2 ^ p"
    using round_even_bounds [of "x / u"] unfolding m_def by linarith
  moreover have "emin - int p + 1 \<le> e - int p + 1"
    by (simp add: e_def)
  ultimately show ?thesis
    using r by blast
qed

lemma round_to_idem:
  assumes "0 < p"
  shows "round_to p emin (round_to p emin x) = round_to p emin x"
proof -
  obtain m k where r: "round_to p emin x = of_int m * 2 powi k"
    and m: "\<bar>m\<bar> \<le> 2 ^ p" and k: "emin - int p + 1 \<le> k"
    using round_to_structure [OF assms] by blast
  show ?thesis
  proof (cases "\<bar>m\<bar> < 2 ^ p")
    case True
    then show ?thesis
      unfolding r using k by (rule round_to_exact)
  next
    case False
    then have "\<bar>m\<bar> = 2 ^ p"
      using m by simp
    then have "m = 2 ^ p \<or> m = - (2 ^ p)"
      by linarith
    then obtain s :: int where s: "\<bar>s\<bar> = 1" and ms: "m = s * 2 ^ p"
      by (auto intro: that [of 1] that [of "- 1"])
    have "(of_int m :: rat) * 2 powi k = of_int s * 2 powi (int p + k)"
      by (simp add: ms power_int_add)
    moreover have "\<bar>s\<bar> < 2 ^ p"
      using s assms by simp
    moreover have "emin - int p + 1 \<le> int p + k"
      using k by simp
    ultimately show ?thesis
      unfolding r by (simp only: round_to_exact)
  qed
qed

lemma fl_idem [simp]: "fl (fl x) = fl x"
  by (simp add: fl_def round_to_idem)

lemma fl32_idem [simp]: "fl32 (fl32 x) = fl32 x"
  by (simp add: fl32_def round_to_idem)

lemma floor_rat_numeral [simp]:
  "\<lfloor>numeral a / numeral b :: rat\<rfloor> = numeral a div numeral b"
  using floor_divide_of_int_eq [of "numeral a" "numeral b", where ?'a = rat] by simp

lemma floor_minus_rat_numeral [simp]:
  "\<lfloor>- (numeral a / numeral b) :: rat\<rfloor> = - numeral a div numeral b"
  using floor_divide_of_int_eq [of "- numeral a" "numeral b", where ?'a = rat] by simp

lemma floor_one_rat_numeral [simp]:
  "\<lfloor>1 / numeral b :: rat\<rfloor> = 1 div numeral b"
  using floor_divide_of_int_eq [of 1 "numeral b", where ?'a = rat] by simp

lemma round_to_at:
  assumes "2 powi e \<le> \<bar>x\<bar>" and "\<bar>x\<bar> < 2 powi (e + 1)" and "emin \<le> e"
  shows "round_to p emin x = of_int (round_even (x / 2 powi (e - int p + 1))) * 2 powi (e - int p + 1)"
proof -
  have "0 < \<bar>x\<bar>"
    using assms(1) by (rule less_le_trans [rotated]) simp
  then have x: "x \<noteq> 0"
    by simp
  have e: "floor_log2 x = e"
    using assms(1,2) by (rule floor_log2_unique)
  show ?thesis
    using x assms(3) by (simp add: round_to_def e max_def Let_def)
qed

lemma fl_at:
  assumes "2 powi e \<le> \<bar>x\<bar>" and "\<bar>x\<bar> < 2 powi (e + 1)" and "- 1022 \<le> e"
  shows "fl x = of_int (round_even (x / 2 powi (e - 52))) * 2 powi (e - 52)"
  using round_to_at [of e x "- 1022" 53] assms by (simp add: fl_def)


text \<open>The integer part and the fractional part of a double are doubles.\<close>

lemma trunc_of_int [simp]: "trunc (of_int z) = z"
  by (simp add: trunc_def)

lemma abs_trunc_le: "\<bar>of_int (trunc v) :: rat\<bar> \<le> \<bar>v\<bar>"
proof (cases "0 \<le> v")
  case True
  then have "0 \<le> \<lfloor>v\<rfloor>"
    by simp
  then show ?thesis
    using True by (simp add: trunc_def)
next
  case False
  then have "\<lceil>v\<rceil> \<le> 0"
    by (simp add: ceiling_le_iff)
  then have "\<bar>of_int \<lceil>v\<rceil> :: rat\<bar> = - of_int \<lceil>v\<rceil>"
    by simp
  also have "\<dots> \<le> - v"
    by (simp add: le_of_int_ceiling)
  finally show ?thesis
    using False by (simp add: trunc_def)
qed

lemma fl_structure:
  "\<exists>m k. fl x = of_int m * 2 powi k \<and> \<bar>m\<bar> \<le> 2 ^ 53 \<and> - 1074 \<le> k"
  using round_to_structure [of 53 "- 1022" x] by (simp add: fl_def)

lemma fl_trunc_fl: "fl (of_int (trunc (fl x))) = of_int (trunc (fl x))"
proof -
  obtain m k where r: "fl x = of_int m * 2 powi k" and m: "\<bar>m\<bar> \<le> 2 ^ 53"
    using fl_structure by blast
  show ?thesis
  proof (cases "0 \<le> k")
    case True
    then have "fl x = of_int (m * 2 ^ nat k)"
      by (simp add: r power_int_def)
    then have "of_int (trunc (fl x)) = fl x"
      by (simp only: trunc_of_int)
    then show ?thesis
      by simp
  next
    case False
    then have "(2 powi k :: rat) \<le> 2 powi (- 1)"
      by (intro power_int_increasing) simp_all
    then have k: "(2 powi k :: rat) \<le> 1 / 2"
      by simp
    have "\<bar>fl x\<bar> = of_int \<bar>m\<bar> * 2 powi k"
      by (simp add: r abs_mult)
    also have "\<dots> \<le> of_int (2 ^ 53) * (1 / 2)"
    proof (rule mult_mono)
      show "(of_int \<bar>m\<bar> :: rat) \<le> of_int (2 ^ 53)"
        using m by (simp only: of_int_le_iff)
      show "(2 powi k :: rat) \<le> 1 / 2"
        by (rule k)
    qed simp_all
    finally have "\<bar>of_int (trunc (fl x)) :: rat\<bar> \<le> of_int (2 ^ 52)"
      using abs_trunc_le [of "fl x"] by simp
    then have "\<bar>trunc (fl x)\<bar> \<le> 2 ^ 52"
      by (simp only: of_int_abs [symmetric] of_int_le_iff)
    then have "\<bar>trunc (fl x)\<bar> < 2 ^ 53"
      by simp
    then show ?thesis
      by (rule fl_of_int)
  qed
qed

lemma dsub_mod1: "dsub (fl x) (mod1 (fl x)) = of_int (trunc (fl x))"
  by (simp add: dsub_def mod1_def fl_trunc_fl)

section \<open>Properties of Rectangle\<close>

text \<open>
  C10. The constructor of \<open>Rectangle\<close> takes a width or height that is \<open>0\<close> or left out
  to \<open>1\<close> and keeps every other one, so the rectangle it makes never has width or height
  \<open>0\<close>; \<open>set\<close> stores a \<open>0\<close> as it is.
\<close>

theorem Rectangle_new_extent:
  "rect_width (Rectangle_new x y (Some 0) h) = 1
   \<and> rect_width (Rectangle_new x y None h) = 1
   \<and> rect_height (Rectangle_new x y w (Some 0)) = 1
   \<and> rect_height (Rectangle_new x y w None) = 1
   \<and> rect_width (Rectangle_new x y (Some n) h) = (if n = 0 then 1 else n)
   \<and> rect_height (Rectangle_new x y w (Some n)) = (if n = 0 then 1 else n)
   \<and> rect_width (Rectangle_new x y w h) \<noteq> 0
   \<and> rect_height (Rectangle_new x y w h) \<noteq> 0
   \<and> rect_width (Rectangle_set x' y' 0 h' r) = 0
   \<and> rect_height (Rectangle_set x' y' w' 0 r) = 0"
  by (simp add: Rectangle_new_def Rectangle_set_def or_default_def split: option.splits)

lemma cropRect_fields:
  "rect_x (cropRect t r) = fst (clip_axis (rect_x t) (rect_x t) (right t) (rect_x r) (rect_width r))"
  "rect_width (cropRect t r) = snd (clip_axis (rect_x t) (rect_x t) (right t) (rect_x r) (rect_width r))"
  "rect_y (cropRect t r) = fst (clip_axis (rect_x t) (rect_y t) (bottom t) (rect_y r) (rect_height r))"
  "rect_height (cropRect t r) = snd (clip_axis (rect_x t) (rect_y t) (bottom t) (rect_y r) (rect_height r))"
  by (simp_all add: cropRect_def clip_axis_def Let_def right_def bottom_def)

lemma clip_axis_within:
  assumes "(p < c) = (p < lo)" and "lo \<le> hi"
  shows "lo \<le> fst (clip_axis c lo hi p e) \<and> fst (clip_axis c lo hi p e) \<le> hi
       \<and> fst (clip_axis c lo hi p e) + snd (clip_axis c lo hi p e) \<le> hi"
  using assms by (auto simp: clip_axis_def Let_def)

lemma clip_axis_extent:
  assumes "(p < c) = (p < lo)" and "lo \<le> hi" and "0 \<le> e" and "lo \<le> p + e"
  shows "0 \<le> snd (clip_axis c lo hi p e)"
  using assms by (auto simp: clip_axis_def Let_def)

lemma clip_axis_idem:
  assumes "(p < c) = (p < lo)"
    and "(fst (clip_axis c lo hi p e) < c) = (fst (clip_axis c lo hi p e) < lo)"
  shows "clip_axis c lo hi (fst (clip_axis c lo hi p e)) (snd (clip_axis c lo hi p e))
         = clip_axis c lo hi p e"
  using assms by (auto simp: clip_axis_def Let_def split: if_splits)

text \<open>
  What \<open>cropRect\<close> does keep, on the inputs where the second test decides as a test
  against \<open>this.y\<close>: the result lies within a target of non-negative extent.
\<close>

lemma cropRect_within:
  assumes "top_test_agrees t r" and "0 \<le> rect_width t" and "0 \<le> rect_height t"
  shows "left t \<le> left (cropRect t r) \<and> left (cropRect t r) \<le> right t
       \<and> right (cropRect t r) \<le> right t
       \<and> top_edge t \<le> top_edge (cropRect t r) \<and> top_edge (cropRect t r) \<le> bottom t
       \<and> bottom (cropRect t r) \<le> bottom t"
proof -
  have x: "rect_x t \<le> right t" and y: "rect_y t \<le> bottom t"
    using assms by (simp_all add: right_def bottom_def)
  have a: "(rect_y r < rect_x t) = (rect_y r < rect_y t)"
    using assms by (simp add: top_test_agrees_def)
  show ?thesis
    using clip_axis_within [OF refl x, of "rect_x r" "rect_width r"]
      clip_axis_within [OF a y, of "rect_height r"]
    by (simp add: left_def top_edge_def right_def [of "cropRect t r"]
        bottom_def [of "cropRect t r"] cropRect_fields)
qed

text \<open>The extents stay non-negative when \<open>r\<close> has them so and reaches the target's left and top.\<close>

lemma cropRect_extent:
  assumes "top_test_agrees t r" and "0 \<le> rect_width t" and "0 \<le> rect_height t"
    and "0 \<le> rect_width r" and "0 \<le> rect_height r"
    and "left t \<le> right r" and "top_edge t \<le> bottom r"
  shows "0 \<le> rect_width (cropRect t r) \<and> 0 \<le> rect_height (cropRect t r)"
proof -
  have x: "rect_x t \<le> right t" and y: "rect_y t \<le> bottom t"
    using assms by (simp_all add: right_def bottom_def)
  have a: "(rect_y r < rect_x t) = (rect_y r < rect_y t)"
    using assms by (simp add: top_test_agrees_def)
  have "rect_x t \<le> rect_x r + rect_width r" and "rect_y t \<le> rect_y r + rect_height r"
    using assms by (simp_all add: left_def top_edge_def right_def bottom_def)
  then show ?thesis
    using clip_axis_extent [OF refl x, of "rect_width r" "rect_x r"]
      clip_axis_extent [OF a y, of "rect_height r"] assms(4,5)
    by (simp add: cropRect_fields)
qed

text \<open>Cropping twice is cropping once when the second test agrees on both calls.\<close>

lemma cropRect_idem:
  assumes "top_test_agrees t r" and "top_test_agrees t (cropRect t r)"
  shows "cropRect t (cropRect t r) = cropRect t r"
proof -
  have a: "(rect_y r < rect_x t) = (rect_y r < rect_y t)"
    using assms by (simp add: top_test_agrees_def)
  have b: "(fst (clip_axis (rect_x t) (rect_y t) (bottom t) (rect_y r) (rect_height r)) < rect_x t)
     = (fst (clip_axis (rect_x t) (rect_y t) (bottom t) (rect_y r) (rect_height r)) < rect_y t)"
    using assms(2) by (simp add: top_test_agrees_def cropRect_fields)
  show ?thesis
    by (rule Rectangle.equality)
       (simp_all add: cropRect_fields [of t "cropRect t r"],
        simp_all add: cropRect_fields [of t r] clip_axis_idem [OF refl refl] clip_axis_idem [OF a b])
qed

text \<open>
  C7, at the inputs where the code leaves the claim. With the target \<open>(0,10,10,10)\<close>,
  the rectangle \<open>(0,5,5,5)\<close> comes back unchanged, its top above the target's: the
  second test compares \<open>r.y = 5\<close> with \<open>this.x = 0\<close>, not with \<open>this.y = 10\<close>. With the
  target \<open>(50,0,10,10)\<close>, the rectangle \<open>(50,60,5,5)\<close> is cropped to \<open>(50,10,5,0)\<close> and, cropped
  again, to \<open>(50,0,5,10)\<close>. With the target \<open>(0,0,10,10)\<close>, the rectangle \<open>(-10,0,5,5)\<close>,
  all of it left of the target, gets the width \<open>-5\<close>.
\<close>

theorem cropRect_failing_inputs:
  "cropRect target_0_10 above_target = above_target
   \<and> top_edge (cropRect target_0_10 above_target) < top_edge target_0_10
   \<and> cropRect target_50_0 below_target
        = \<lparr>rect_x = 50, rect_y = 10, rect_width = 5, rect_height = 0\<rparr>
   \<and> cropRect target_50_0 (cropRect target_50_0 below_target)
        = \<lparr>rect_x = 50, rect_y = 0, rect_width = 5, rect_height = 10\<rparr>
   \<and> cropRect target_origin left_of_target
        = \<lparr>rect_x = 0, rect_y = 0, rect_width = - 5, rect_height = 5\<rparr>"
  by (simp add: cropRect_def Let_def right_def bottom_def top_edge_def target_0_10_def
      above_target_def target_50_0_def below_target_def target_origin_def left_of_target_def)

section \<open>Properties of ObjectList\<close>

lemma clean_keeps_dirty: "dirty (ObjectList_clean this) = dirty this"
  by (simp add: ObjectList_clean_def)

lemma clean_not_dirty: "\<not> dirty this \<Longrightarrow> ObjectList_clean this = this"
  by (simp add: ObjectList_clean_def)

lemma sort_not_unsorted: "\<not> unsorted this \<Longrightarrow> ObjectList_sort compare this = this"
  by (simp add: ObjectList_sort_def)

lemma sort_resets_unsorted: "\<not> unsorted (ObjectList_sort compare this)"
  by (simp add: ObjectList_sort_def)

lemma add_sets_unsorted: "unsorted (ObjectList_add object this)"
  by (simp add: ObjectList_add_def)

lemma indexOf_found: "(0 \<le> indexOf xs v) = (v \<in> set xs)"
  by (induction xs) (auto simp: Let_def)

lemma remove_sets_dirty:
  "fst (ObjectList_remove object this) \<Longrightarrow> dirty (snd (ObjectList_remove object this))"
  by (simp add: ObjectList_remove_def Let_def split: if_splits)

lemma remove_absent:
  "object \<notin> set (objects this) \<Longrightarrow> ObjectList_remove object this = (False, this)"
  by (simp add: ObjectList_remove_def Let_def indexOf_found)

text \<open>The loop of \<open>clean\<close> drops the empty slots and keeps the others in order.\<close>

lemma clean_loop_filter:
  "n \<le> length xs \<Longrightarrow> clean_loop n xs = filter (\<lambda>x. x \<noteq> None) (take n xs) @ drop n xs"
proof (induction n arbitrary: xs)
  case 0
  then show ?case by simp
next
  case (Suc n)
  then have n: "n < length xs" by simp
  show ?case
  proof (cases "xs ! n = None")
    case True
    have "clean_loop (Suc n) xs = clean_loop n (take n xs @ drop (Suc n) xs)"
      using True by simp
    also have "\<dots> = filter (\<lambda>x. x \<noteq> None) (take n xs) @ drop (Suc n) xs"
      using n by (subst Suc.IH) (simp_all add: min_def)
    also have "\<dots> = filter (\<lambda>x. x \<noteq> None) (take (Suc n) xs) @ drop (Suc n) xs"
      using n True by (simp add: take_Suc_conv_app_nth)
    finally show ?thesis .
  next
    case False
    have "clean_loop (Suc n) xs = clean_loop n xs"
      using False by auto
    also have "\<dots> = filter (\<lambda>x. x \<noteq> None) (take n xs) @ drop n xs"
      using n by (subst Suc.IH) simp_all
    also have "\<dots> = filter (\<lambda>x. x \<noteq> None) (take (Suc n) xs) @ drop (Suc n) xs"
      using n False by (simp add: take_Suc_conv_app_nth Cons_nth_drop_Suc)
    finally show ?thesis .
  qed
qed

lemma clean_compacts:
  "dirty this \<Longrightarrow> 0 < ol_count this \<Longrightarrow>
   objects (ObjectList_clean this) = filter (\<lambda>x. x \<noteq> None) (objects this)"
  by (simp add: ObjectList_clean_def clean_loop_filter)

text \<open>
  C8, at the input where the code leaves the claim. After \<open>add(1)\<close>, \<open>add(2)\<close>,
  \<open>remove(1)\<close> the list is dirty with the slots \<open>[null, 2]\<close>; \<open>clean()\<close> compacts them to
  \<open>[2]\<close> and leaves \<open>dirty\<close> set, and so does a second \<open>clean()\<close>: \<open>clean\<close> never resets
  its flag, where \<open>sort\<close> resets \<open>unsorted\<close>.
\<close>

theorem clean_leaves_dirty:
  "dirty one_removed
   \<and> objects one_removed = [None, Some 2]
   \<and> objects (ObjectList_clean one_removed) = [Some 2]
   \<and> dirty (ObjectList_clean one_removed)
   \<and> dirty (ObjectList_clean (ObjectList_clean one_removed))
   \<and> \<not> unsorted (ObjectList_sort (\<lambda>a b. of_nat a - of_nat b) two_objects)"
  by (simp add: one_removed_def two_objects_def ObjectList_clean_def ObjectList_remove_def
      ObjectList_add_def ObjectList_new_def ObjectList_sort_def Let_def)

section \<open>Properties of Color\<close>





section \<open>Properties of Matrix\<close>














section \<open>Properties of the colliders\<close>

lemma type_names_differ [simp]:
  "Hitbox_type \<noteq> Hitgrid_type" "Hitgrid_type \<noteq> Hitbox_type"
  by (simp_all add: Hitbox_type_def Hitgrid_type_def Type_name_inject
      Object_prototype_names_def)

lemma name_string_types [simp]:
  "name_string Hitbox_type = ''Hitbox''" "name_string Hitgrid_type = ''Hitgrid''"
  by (simp_all add: Hitbox_type_def Hitgrid_type_def Type_name_inverse
      Object_prototype_names_def)

lemma DefaultOverlapTests_Hitbox:
  "\<exists>r. DefaultOverlapTests g reg Hitbox_type = Some r
       \<and> r Hitbox_type = Some (\<lambda>s a b. hitbox_hitbox s b a)"
  by (simp add: DefaultOverlapTests_def registerOverlapTest_def Let_def row_def)

lemma hitbox_hitbox_sym: "hitbox_hitbox s b a = hitbox_hitbox s a b"
  by (auto simp: hitbox_hitbox_def)

text \<open>
  C3. After \<open>DefaultOverlapTests\<close>, on any registry and with any test for the hitgrid,
  \<open>Collider.overlap\<close> of two hitboxes returns the open-interval condition on their scene
  bounds; so two boxes whose edges only touch do not overlap.
\<close>

theorem Hitbox_overlap_open_interval:
  assumes "ctype (components s a) = Hitbox_type" and "ctype (components s b) = Hitbox_type"
  shows "overlap (DefaultOverlapTests g reg) s a b =
           Inr (sceneRight s a > sceneLeft s b \<and> sceneBottom s a > sceneTop s b \<and>
                sceneLeft s a < sceneRight s b \<and> sceneTop s a < sceneBottom s b)"
proof -
  obtain r where "DefaultOverlapTests g reg Hitbox_type = Some r"
    and "r Hitbox_type = Some (\<lambda>s a b. hitbox_hitbox s b a)"
    using DefaultOverlapTests_Hitbox by blast
  then have "overlap (DefaultOverlapTests g reg) s a b = Inr (hitbox_hitbox s b a)"
    using assms by (simp add: overlap_def)
  then show ?thesis
    by (simp add: hitbox_hitbox_sym) (simp add: hitbox_hitbox_def)
qed

text \<open>
  The boxes \<open>(0,0,10,10)\<close> and \<open>(10,0,10,10)\<close> do not overlap; \<open>(0,0,10,10)\<close> and
  \<open>(9,0,10,10)\<close> do.
\<close>

theorem Hitbox_overlap_open_interval_witness:
  "ctype (components boxes_scene 0) = Hitbox_type \<and> ctype (components boxes_scene 1) = Hitbox_type
   \<and> ctype (components boxes_scene 2) = Hitbox_type
   \<and> overlap (DefaultOverlapTests no_tiles Map.empty) boxes_scene 0 1 = Inr False
   \<and> overlap (DefaultOverlapTests no_tiles Map.empty) boxes_scene 0 2 = Inr True"
  using Hitbox_overlap_open_interval [of boxes_scene 0 1 no_tiles Map.empty]
    Hitbox_overlap_open_interval [of boxes_scene 0 2 no_tiles Map.empty]
  by (simp add: boxes_scene_def Hitbox_new_def sceneLeft_def sceneRight_def sceneTop_def
      sceneBottom_def scenePosition_x_def scenePosition_y_def dadd_def)

text \<open>
  C5, at a concrete pair. With the default tests registered, the overlap of two hitgrids
  (a pair with no test) is the \<open>TypeError\<close> of the runtime: the program asserts nothing
  and builds no message that names the pair.
\<close>

theorem overlap_hitgrids_counterexample:
  "overlap default_registry grids_scene 0 1 = Inl TypeError
   \<and> (\<nexists>message. overlap default_registry grids_scene 0 1 = Inl (Thrown message))"
  by (simp add: overlap_def default_registry_def DefaultOverlapTests_def
      registerOverlapTest_def Let_def row_def grids_scene_def Hitgrid_new_def)

text \<open>
  C5, as the code has it. For every pair of types with no registered test, neither of
  them a name that objects inherit from \<open>Object.prototype\<close>, \<open>Collider.overlap\<close> ends in the
  \<open>TypeError\<close> of the runtime, with no message of the program. (For an inherited name the
  lookup finds a member of the runtime; such names are not values of \<open>type_name\<close>.)
\<close>

theorem overlap_unregistered:
  assumes "\<not> registered reg (ctype (components s a)) (ctype (components s b))"
  shows "overlap reg s a b = Inl TypeError
    \<and> (\<nexists>message. overlap reg s a b = Inl (Thrown message))
    \<and> name_string (ctype (components s a)) \<notin> set Object_prototype_names
    \<and> name_string (ctype (components s b)) \<notin> set Object_prototype_names"
proof -
  have "overlap reg s a b = Inl TypeError"
    using assms by (auto simp: registered_def overlap_def split: option.splits)
  moreover have "name_string t \<notin> set Object_prototype_names" for t
    using name_string [of t] by simp
  ultimately show ?thesis
    by simp
qed

theorem overlap_unregistered_witness:
  "\<not> registered Map.empty (ctype (components boxes_scene 0)) (ctype (components boxes_scene 1))
   \<and> overlap Map.empty boxes_scene 0 1 = Inl TypeError
   \<and> \<not> registered default_registry (ctype (components grids_scene 0))
          (ctype (components grids_scene 1))
   \<and> overlap default_registry grids_scene 0 1 = Inl TypeError
   \<and> name_string (ctype (components grids_scene 0)) = ''Hitgrid''"
  using overlap_unregistered [of Map.empty boxes_scene 0 1]
    overlap_unregistered [of default_registry grids_scene 0 1]
  by (simp add: registered_def default_registry_def DefaultOverlapTests_def
      registerOverlapTest_def Let_def row_def grids_scene_def Hitgrid_new_def)

subsection \<open>Queries and the position of the collider\<close>

lemma there_and_back_fields [simp]:
  "entities (there_and_back this dx dy s) = entities s"
  "colliders (there_and_back this dx dy s) = colliders s"
  "components (there_and_back this dx dy s) =
     (components s)(this := (components s this)
        \<lparr>pos_x := dsub (dadd (pos_x (components s this)) dx) dx,
         pos_y := dsub (dadd (pos_y (components s this)) dy) dy\<rparr>)"
  by (simp_all add: there_and_back_def translate_back_def translate_def)

lemma translate_fields [simp]:
  "entities (translate this dx dy s) = entities s"
  "colliders (translate this dx dy s) = colliders s"
  "components (translate this dx dy s) =
     (components s)(this := (components s this)
        \<lparr>pos_x := dadd (pos_x (components s this)) dx,
         pos_y := dadd (pos_y (components s this)) dy\<rparr>)"
  by (simp_all add: translate_def)

lemma entity_there_and_back [simp]:
  "entity (components (there_and_back this dx dy s) c) = entity (components s c)"
  by simp

lemma entity_funpow_there_and_back [simp]:
  "entity (components ((there_and_back this dx dy ^^ n) s) c) = entity (components s c)"
  by (induction n arbitrary: c) simp_all

lemma entities_funpow_there_and_back [simp]:
  "entities ((there_and_back this dx dy ^^ n) s) = entities s"
  by (induction n) simp_all

lemma colliders_funpow_there_and_back [simp]:
  "colliders ((there_and_back this dx dy ^^ n) s) = colliders s"
  by (induction n) simp_all

text \<open>When both sums are exact, the way back undoes the way there.\<close>

lemma there_and_back_exact:
  assumes "fl (pos_x (components s this)) = pos_x (components s this)"
    and "fl (pos_y (components s this)) = pos_y (components s this)"
    and "fl (pos_x (components s this) + dx) = pos_x (components s this) + dx"
    and "fl (pos_y (components s this) + dy) = pos_y (components s this) + dy"
  shows "there_and_back this dx dy s = s"
proof -
  have "components (there_and_back this dx dy s) = components s"
    using assms by (simp add: dadd_def dsub_def)
  then show ?thesis
    by (simp add: there_and_back_def translate_back_def translate_def)
qed

lemma collide_Inr:
  "collide reg this tag x y s = (Inr r, s') \<Longrightarrow>
   s' = there_and_back this (or_default x 0) (or_default y 0) s"
  by (auto simp: collide_def Let_def there_and_back_def
      split: option.splits if_splits sum.splits)

lemma collideAll_Inr:
  "collideAll reg this tag x y s = (Inr r, s') \<Longrightarrow>
   s' = there_and_back this (or_default x 0) (or_default y 0) s"
  by (auto simp: collideAll_def Let_def there_and_back_def
      split: option.splits if_splits sum.splits)

lemma check_Inr:
  "check reg this tag x y s = (Inr r, s') \<Longrightarrow>
   s' = there_and_back this (or_default x 0) (or_default y 0) s"
  by (auto simp: check_def split: prod.splits sum.splits dest: collide_Inr)

lemma collides_Inr:
  "collides reg this tags x y s = (Inr r, s') \<Longrightarrow>
   \<exists>n\<le>length tags. s' = (there_and_back this (or_default x 0) (or_default y 0) ^^ n) s"
proof (induction tags arbitrary: s)
  case Nil
  then show ?case by simp
next
  case (Cons tag tags)
  let ?f = "there_and_back this (or_default x 0) (or_default y 0)"
  obtain q s1 where c: "collide reg this tag x y s = (q, s1)"
    by (cases "collide reg this tag x y s")
  show ?case
  proof (cases q)
    case (Inl err)
    then show ?thesis
      using Cons.prems c by simp
  next
    case (Inr hit)
    then have s1: "s1 = ?f s"
      using c collide_Inr by simp
    show ?thesis
    proof (cases hit)
      case None
      then have "collides reg this tags x y s1 = (Inr r, s')"
        using Cons.prems c Inr by simp
      then obtain n where "n \<le> length tags" and "s' = (?f ^^ n) s1"
        using Cons.IH by blast
      then have "Suc n \<le> length (tag # tags)" and "s' = (?f ^^ Suc n) s"
        by (simp_all add: s1 funpow_swap1)
      then show ?thesis
        by blast
    next
      case (Some h)
      then have "s' = (?f ^^ Suc 0) s"
        using Cons.prems c Inr s1 by simp
      then show ?thesis
        by (intro exI [of _ "Suc 0"]) simp
    qed
  qed
qed

text \<open>A query of a collider with an entity in the scene that ends in an error.\<close>

lemma collide_Inl:
  assumes "entity (components s this) = Some e" and "ent_scene (entities s e)"
    and "collide reg this tag x y s = (Inl err, s')"
  shows "s' = translate this (or_default x 0) (or_default y 0) s"
  using assms by (auto simp: collide_def Let_def split: option.splits if_splits sum.splits)

lemma collideAll_Inl:
  assumes "entity (components s this) = Some e" and "ent_scene (entities s e)"
    and "collideAll reg this tag x y s = (Inl err, s')"
  shows "s' = translate this (or_default x 0) (or_default y 0) s"
  using assms by (auto simp: collideAll_def Let_def split: option.splits if_splits sum.splits)

lemma check_Inl:
  assumes "entity (components s this) = Some e" and "ent_scene (entities s e)"
    and "check reg this tag x y s = (Inl err, s')"
  shows "s' = translate this (or_default x 0) (or_default y 0) s"
  using assms by (auto simp: check_def split: prod.splits sum.splits dest: collide_Inl)

lemma collides_Inl:
  assumes "entity (components s this) = Some e" and "ent_scene (entities s e)"
    and "collides reg this tags x y s = (Inl err, s')"
  shows "\<exists>n<length tags. s' = translate this (or_default x 0) (or_default y 0)
           ((there_and_back this (or_default x 0) (or_default y 0) ^^ n) s)"
  using assms
proof (induction tags arbitrary: s)
  case Nil
  then show ?case by simp
next
  case (Cons tag tags)
  let ?f = "there_and_back this (or_default x 0) (or_default y 0)"
  let ?t = "translate this (or_default x 0) (or_default y 0)"
  obtain q s1 where c: "collide reg this tag x y s = (q, s1)"
    by (cases "collide reg this tag x y s")
  show ?case
  proof (cases q)
    case (Inl err')
    then have "s' = ?t ((?f ^^ 0) s)"
      using Cons.prems c collide_Inl [of s this e reg tag x y err' s1] by simp
    then show ?thesis
      by (intro exI [of _ 0]) simp
  next
    case (Inr hit)
    then have s1: "s1 = ?f s"
      using c collide_Inr by simp
    show ?thesis
    proof (cases hit)
      case None
      then have "collides reg this tags x y s1 = (Inl err, s')"
        using Cons.prems c Inr by simp
      moreover have "entity (components s1 this) = Some e" and "ent_scene (entities s1 e)"
        using Cons.prems(1,2) by (simp_all add: s1)
      ultimately obtain n where "n < length tags" and "s' = ?t ((?f ^^ n) s1)"
        using Cons.IH by blast
      then have "Suc n < length (tag # tags)" and "s' = ?t ((?f ^^ Suc n) s)"
        by (simp_all add: s1 funpow_swap1)
      then show ?thesis
        by blast
    next
      case (Some h)
      then show ?thesis
        using Cons.prems c Inr by simp
    qed
  qed
qed

lemma returned_scene:
  assumes "\<And>r s'. q = (Inr r, s') \<Longrightarrow> P s'" and "\<not> isl (fst q)"
  shows "P (snd q)"
proof (cases q)
  case (Pair a b)
  show ?thesis
  proof (cases a)
    case (Inl err)
    then show ?thesis
      using assms(2) Pair by simp
  next
    case (Inr r)
    then show ?thesis
      using assms(1) Pair by simp
  qed
qed

lemma raised_scene:
  assumes "\<And>err s'. q = (Inl err, s') \<Longrightarrow> P s'" and "isl (fst q)"
  shows "P (snd q)"
proof (cases q)
  case (Pair a b)
  show ?thesis
  proof (cases a)
    case (Inl err)
    then show ?thesis
      using assms(1) Pair by simp
  next
    case (Inr r)
    then show ?thesis
      using assms(2) Pair by simp
  qed
qed

text \<open>
  C4, at two concrete queries. With the default tests registered, a hitgrid at local
  position \<open>0\<close> that queries the tag \<open>solid\<close>, which holds another hitgrid, with the offset
  \<open>(1, 0)\<close>: the overlap of two hitgrids raises, and the call ends with the collider at
  local position \<open>1\<close>. A hitbox at local position \<open>0.1\<close> that queries a tag without
  colliders with the offset \<open>(0.2, 0)\<close>: the call returns \<open>null\<close> and leaves the collider
  at \<open>0.10000000000000003\<close>.
\<close>

theorem collide_raises_counterexample:
  "collide default_registry 0 ''solid'' (Some 1) (Some 0) grids_scene
     = (Inl TypeError, translate 0 1 0 grids_scene)
   \<and> pos_x (components grids_scene 0) = 0
   \<and> pos_x (components (snd (collide default_registry 0 ''solid'' (Some 1) (Some 0) grids_scene)) 0)
       = 1
   \<and> fst (collide default_registry 0 ''none'' (Some fifth) (Some 0) offset_scene) = Inr None
   \<and> pos_x (components offset_scene 0) = 3602879701896397 / 36028797018963968
   \<and> pos_x (components (snd (collide default_registry 0 ''none'' (Some fifth) (Some 0)
                                 offset_scene)) 0)
       = 1801439850948199 / 18014398509481984"
proof -
  have a: "fl (10808639105689191 / 36028797018963968) = 1351079888211149 / 4503599627370496"
    using fl_at [of "- 2" "10808639105689191 / 36028797018963968"]
    by (simp add: round_even_def Let_def)
  have b: "fl (1801439850948199 / 18014398509481984) = 1801439850948199 / 18014398509481984"
    using fl_at [of "- 4" "1801439850948199 / 18014398509481984"]
    by (simp add: round_even_def Let_def)
  have grids: "collide default_registry 0 ''solid'' (Some 1) (Some 0) grids_scene
     = (Inl TypeError, translate 0 1 0 grids_scene)"
    by (simp add: collide_def Let_def overlap_def default_registry_def DefaultOverlapTests_def
        registerOverlapTest_def row_def grids_scene_def Hitgrid_new_def or_default_def
        allCollidersInTag_def translate_def origin_entity_def)
  have moved: "pos_x (components (translate 0 1 0 grids_scene) 0) = 1"
    by (simp add: grids_scene_def Hitgrid_new_def dadd_def)
  have offset: "collide default_registry 0 ''none'' (Some fifth) (Some 0) offset_scene
     = (Inr None, there_and_back 0 fifth 0 offset_scene)"
    by (simp add: collide_def Let_def offset_scene_def solid_scene_def Hitbox_new_def
        or_default_def allCollidersInTag_def origin_entity_def fifth_def there_and_back_def
        Object_prototype_names_def)
  have drift: "pos_x (components (there_and_back 0 fifth 0 offset_scene) 0)
       = 1801439850948199 / 18014398509481984"
    by (simp add: there_and_back_fields offset_scene_def tenth_def fifth_def dadd_def dsub_def
        a b)
  show ?thesis
    unfolding grids offset using moved drift
    by (simp add: grids_scene_def Hitgrid_new_def offset_scene_def tenth_def)
qed

text \<open>
  C4, as the code has it. Whenever \<open>collide\<close>, \<open>check\<close> or \<open>collideAll\<close> returns, the
  collider has been translated by \<open>(dx, dy)\<close> and back, each time by a rounded operation,
  and nothing else of the scene has changed; \<open>collides\<close> does so once for each tag that it
  queries. The way back undoes the way there when both sums are exact. There is no
  handler around the query: when a query of a collider with an entity in the scene ends
  in an error, because the overlap test raises in the loop or the tag names a value that
  cannot be iterated, the call ends with the collider still translated.
\<close>

theorem queries_translate_there_and_back:
  "(\<not> isl (fst (collide reg this tag x y s)) \<longrightarrow>
      snd (collide reg this tag x y s) = there_and_back this (or_default x 0) (or_default y 0) s)
   \<and> (\<not> isl (fst (check reg this tag x y s)) \<longrightarrow>
      snd (check reg this tag x y s) = there_and_back this (or_default x 0) (or_default y 0) s)
   \<and> (\<not> isl (fst (collideAll reg this tag x y s)) \<longrightarrow>
      snd (collideAll reg this tag x y s)
        = there_and_back this (or_default x 0) (or_default y 0) s)
   \<and> (\<not> isl (fst (collides reg this tags x y s)) \<longrightarrow>
      (\<exists>n. n \<le> length tags \<and> snd (collides reg this tags x y s)
              = (there_and_back this (or_default x 0) (or_default y 0) ^^ n) s))
   \<and> components (there_and_back this dx dy s) =
        (components s)(this := (components s this)
           \<lparr>pos_x := dsub (dadd (pos_x (components s this)) dx) dx,
            pos_y := dsub (dadd (pos_y (components s this)) dy) dy\<rparr>)
   \<and> entities (there_and_back this dx dy s) = entities s
   \<and> colliders (there_and_back this dx dy s) = colliders s
   \<and> (fl (pos_x (components s this)) = pos_x (components s this)
        \<and> fl (pos_y (components s this)) = pos_y (components s this)
        \<and> fl (pos_x (components s this) + dx) = pos_x (components s this) + dx
        \<and> fl (pos_y (components s this) + dy) = pos_y (components s this) + dy
      \<longrightarrow> there_and_back this dx dy s = s)
   \<and> (entity (components s this) = Some e \<and> ent_scene (entities s e)
        \<and> isl (fst (collide reg this tag x y s))
      \<longrightarrow> snd (collide reg this tag x y s)
            = translate this (or_default x 0) (or_default y 0) s)
   \<and> (entity (components s this) = Some e \<and> ent_scene (entities s e)
        \<and> isl (fst (check reg this tag x y s))
      \<longrightarrow> snd (check reg this tag x y s)
            = translate this (or_default x 0) (or_default y 0) s)
   \<and> (entity (components s this) = Some e \<and> ent_scene (entities s e)
        \<and> isl (fst (collideAll reg this tag x y s))
      \<longrightarrow> snd (collideAll reg this tag x y s)
            = translate this (or_default x 0) (or_default y 0) s)
   \<and> (entity (components s this) = Some e \<and> ent_scene (entities s e)
        \<and> isl (fst (collides reg this tags x y s))
      \<longrightarrow> (\<exists>n. n < length tags \<and> snd (collides reg this tags x y s)
              = translate this (or_default x 0) (or_default y 0)
                  ((there_and_back this (or_default x 0) (or_default y 0) ^^ n) s)))
   \<and> (entity (components s this) = Some e \<and> ent_scene (entities s e)
        \<and> allCollidersInTag s tag = Some list
        \<and> first_overlap reg (translate this (or_default x 0) (or_default y 0) s) this list
            = Inl err
      \<longrightarrow> collide reg this tag x y s
            = (Inl err, translate this (or_default x 0) (or_default y 0) s))
   \<and> (entity (components s this) = Some e \<and> ent_scene (entities s e)
        \<and> allCollidersInTag s tag = Some list
        \<and> all_overlaps reg (translate this (or_default x 0) (or_default y 0) s) this list
            = Inl err
      \<longrightarrow> collideAll reg this tag x y s
            = (Inl err, translate this (or_default x 0) (or_default y 0) s))
   \<and> (entity (components s this) = Some e \<and> ent_scene (entities s e)
        \<and> allCollidersInTag s tag = None
      \<longrightarrow> collide reg this tag x y s
            = (Inl TypeError, translate this (or_default x 0) (or_default y 0) s))
   \<and> components (translate this dx dy s) =
        (components s)(this := (components s this)
           \<lparr>pos_x := dadd (pos_x (components s this)) dx,
            pos_y := dadd (pos_y (components s this)) dy\<rparr>)"
proof -
  let ?f = "there_and_back this (or_default x 0) (or_default y 0)"
  let ?t = "translate this (or_default x 0) (or_default y 0)"
  have a: "snd (collide reg this tag x y s) = ?f s" if "\<not> isl (fst (collide reg this tag x y s))"
    using collide_Inr that by (rule returned_scene)
  have b: "snd (check reg this tag x y s) = ?f s" if "\<not> isl (fst (check reg this tag x y s))"
    using check_Inr that by (rule returned_scene)
  have c: "snd (collideAll reg this tag x y s) = ?f s"
    if "\<not> isl (fst (collideAll reg this tag x y s))"
    using collideAll_Inr that by (rule returned_scene)
  have d: "\<exists>n. n \<le> length tags \<and> snd (collides reg this tags x y s) = (?f ^^ n) s"
    if "\<not> isl (fst (collides reg this tags x y s))"
  proof -
    have "\<exists>n\<le>length tags. snd (collides reg this tags x y s) = (?f ^^ n) s"
      using collides_Inr that by (rule returned_scene)
    then show ?thesis
      by blast
  qed
  have ex: "there_and_back this dx dy s = s"
    if "fl (pos_x (components s this)) = pos_x (components s this)"
      and "fl (pos_y (components s this)) = pos_y (components s this)"
      and "fl (pos_x (components s this) + dx) = pos_x (components s this) + dx"
      and "fl (pos_y (components s this) + dy) = pos_y (components s this) + dy"
    using that by (rule there_and_back_exact)
  have a': "snd (collide reg this tag x y s) = ?t s"
    if "entity (components s this) = Some e" and "ent_scene (entities s e)"
      and "isl (fst (collide reg this tag x y s))"
    using collide_Inl [OF that(1,2)] that(3) by (rule raised_scene)
  have b': "snd (check reg this tag x y s) = ?t s"
    if "entity (components s this) = Some e" and "ent_scene (entities s e)"
      and "isl (fst (check reg this tag x y s))"
    using check_Inl [OF that(1,2)] that(3) by (rule raised_scene)
  have c': "snd (collideAll reg this tag x y s) = ?t s"
    if "entity (components s this) = Some e" and "ent_scene (entities s e)"
      and "isl (fst (collideAll reg this tag x y s))"
    using collideAll_Inl [OF that(1,2)] that(3) by (rule raised_scene)
  have d': "\<exists>n. n < length tags \<and> snd (collides reg this tags x y s) = ?t ((?f ^^ n) s)"
    if "entity (components s this) = Some e" and "ent_scene (entities s e)"
      and "isl (fst (collides reg this tags x y s))"
  proof -
    have "\<exists>n<length tags. snd (collides reg this tags x y s) = ?t ((?f ^^ n) s)"
      using collides_Inl [OF that(1,2)] that(3) by (rule raised_scene)
    then show ?thesis
      by blast
  qed
  have e: "collide reg this tag x y s = (Inl err, ?t s)"
    if "entity (components s this) = Some e" and "ent_scene (entities s e)"
      and "allCollidersInTag s tag = Some list"
      and "first_overlap reg (?t s) this list = Inl err"
    using that by (simp add: collide_def Let_def)
  have f: "collideAll reg this tag x y s = (Inl err, ?t s)"
    if "entity (components s this) = Some e" and "ent_scene (entities s e)"
      and "allCollidersInTag s tag = Some list"
      and "all_overlaps reg (?t s) this list = Inl err"
    using that by (simp add: collideAll_def Let_def)
  have g: "collide reg this tag x y s = (Inl TypeError, ?t s)"
    if "entity (components s this) = Some e" and "ent_scene (entities s e)"
      and "allCollidersInTag s tag = None"
    using that by (simp add: collide_def Let_def)
  show ?thesis
    using a b c d ex a' b' c' d' e f g
    by (simp only: there_and_back_fields translate_fields) blast
qed

lemmas scene_eval = collide_def collideAll_def check_def Let_def overlap_def
  default_registry_def DefaultOverlapTests_def registerOverlapTest_def row_def solid_scene_def
  Hitbox_new_def or_default_def allCollidersInTag_def translate_def translate_back_def
  origin_entity_def hitbox_hitbox_def sceneLeft_def sceneRight_def sceneTop_def
  sceneBottom_def scenePosition_x_def scenePosition_y_def entity_add_x_def entity_add_y_def
  probe_def blocking_def isMe_def Calc_sign_def dadd_def dsub_def there_and_back_def

theorem queries_translate_there_and_back_witness:
  "\<not> isl (fst (collide default_registry 0 ''solid'' (Some 2) (Some 0) solid_scene))
   \<and> fst (collide default_registry 0 ''solid'' (Some 2) (Some 0) solid_scene) = Inr (Some 1)
   \<and> \<not> isl (fst (check default_registry 0 ''solid'' (Some 2) (Some 0) solid_scene))
   \<and> \<not> isl (fst (collideAll default_registry 0 ''solid'' (Some 2) (Some 0) solid_scene))
   \<and> \<not> isl (fst (collides default_registry 0 [''solid''] (Some 2) (Some 0) solid_scene))
   \<and> fl (pos_x (components solid_scene 0)) = pos_x (components solid_scene 0)
   \<and> fl (pos_y (components solid_scene 0)) = pos_y (components solid_scene 0)
   \<and> fl (pos_x (components solid_scene 0) + 2) = pos_x (components solid_scene 0) + 2
   \<and> fl (pos_y (components solid_scene 0) + 0) = pos_y (components solid_scene 0) + 0
   \<and> snd (collide default_registry 0 ''solid'' (Some 2) (Some 0) solid_scene) = solid_scene
   \<and> snd (check default_registry 0 ''solid'' (Some 2) (Some 0) solid_scene) = solid_scene
   \<and> snd (collideAll default_registry 0 ''solid'' (Some 2) (Some 0) solid_scene) = solid_scene
   \<and> snd (collides default_registry 0 [''solid''] (Some 2) (Some 0) solid_scene) = solid_scene
   \<and> entity (components grids_scene 0) = Some 0 \<and> ent_scene (entities grids_scene 0)
   \<and> isl (fst (collide default_registry 0 ''solid'' (Some 1) (Some 0) grids_scene))
   \<and> isl (fst (check default_registry 0 ''solid'' (Some 1) (Some 0) grids_scene))
   \<and> isl (fst (collideAll default_registry 0 ''solid'' (Some 1) (Some 0) grids_scene))
   \<and> isl (fst (collides default_registry 0 [''solid''] (Some 1) (Some 0) grids_scene))
   \<and> allCollidersInTag grids_scene ''solid'' = Some [1]
   \<and> first_overlap default_registry (translate 0 (or_default (Some 1) 0) (or_default (Some 0) 0)
         grids_scene) 0 [1] = Inl TypeError
   \<and> all_overlaps default_registry (translate 0 (or_default (Some 1) 0) (or_default (Some 0) 0)
         grids_scene) 0 [1] = Inl TypeError
   \<and> allCollidersInTag grids_scene ''toString'' = None
   \<and> snd (collide default_registry 0 ''solid'' (Some 1) (Some 0) grids_scene)
       = translate 0 1 0 grids_scene
   \<and> snd (check default_registry 0 ''solid'' (Some 1) (Some 0) grids_scene)
       = translate 0 1 0 grids_scene
   \<and> snd (collideAll default_registry 0 ''solid'' (Some 1) (Some 0) grids_scene)
       = translate 0 1 0 grids_scene
   \<and> snd (collides default_registry 0 [''solid''] (Some 1) (Some 0) grids_scene)
       = translate 0 1 0 grids_scene
   \<and> snd (collide default_registry 0 ''toString'' (Some 1) (Some 0) grids_scene)
       = translate 0 1 0 grids_scene
   \<and> pos_x (components (translate 0 1 0 grids_scene) 0) = 1"
  using queries_translate_there_and_back
    [of default_registry 0 "''solid''" "Some 2" "Some 0" solid_scene "[''solid'']" 2 0]
    queries_translate_there_and_back
    [of default_registry 0 "''solid''" "Some 1" "Some 0" grids_scene "[''solid'']" 1 0 0
      "[1]" TypeError]
    queries_translate_there_and_back
    [of default_registry 0 "''toString''" "Some 1" "Some 0" grids_scene "[''solid'']" 1 0 0]
  by (simp add: scene_eval grids_scene_def Hitgrid_new_def Object_prototype_names_def)

section \<open>Properties of Physics\<close>

lemma Math_round_of_int [simp]: "Math_round (of_int z) = of_int z"
proof -
  have "\<lfloor>(of_int z :: rat) + 1 / 2\<rfloor> = z"
    by (simp add: floor_unique)
  then show ?thesis
    by (simp add: Math_round_def)
qed

lemma mod1_bounds: "\<bar>mod1 v\<bar> < 1"
  by (simp add: mod1_def trunc_def) linarith

lemma mod1_sign: "(0 \<le> v \<longrightarrow> 0 \<le> mod1 v) \<and> (v \<le> 0 \<longrightarrow> mod1 v \<le> 0)"
  by (auto simp: mod1_def trunc_def)

lemma entity_add_x_fields [simp]:
  "components (entity_add_x e d s) = components s"
  "colliders (entity_add_x e d s) = colliders s"
  "entities (entity_add_x e d s) =
     (entities s)(e := (entities s e)\<lparr>ent_x := dadd (ent_x (entities s e)) d\<rparr>)"
  by (simp_all add: entity_add_x_def)

lemma entity_add_y_fields [simp]:
  "components (entity_add_y e d s) = components s"
  "colliders (entity_add_y e d s) = colliders s"
  "entities (entity_add_y e d s) =
     (entities s)(e := (entities s e)\<lparr>ent_y := dadd (ent_y (entities s e)) d\<rparr>)"
  by (simp_all add: entity_add_y_def)

subsection \<open>What a query leaves as it was\<close>










subsection \<open>The sweep against solids\<close>


























text \<open>When the translation is exact, a query that returns leaves the scene as it was.\<close>

lemma or_default_Some_0 [simp]: "or_default (Some v) 0 = v"
  by (simp add: or_default_def)




lemma exact_translation_entity_add [simp]:
  "exact_translation this dx dy (entity_add_x e d s) = exact_translation this dx dy s"
  "exact_translation this dx dy (entity_add_y e d s) = exact_translation this dx dy s"
  by (simp_all add: exact_translation_def)

lemma exact_translation_funpow [simp]:
  "exact_translation this dx dy ((entity_add_x e d ^^ k) s) = exact_translation this dx dy s"
  "exact_translation this dx dy ((entity_add_y e d ^^ k) s) = exact_translation this dx dy s"
  by (induction k) simp_all





lemma Math_round_3 [simp]: "Math_round 3 = 3"
  using Math_round_of_int [of 3] by simp

lemma unit_steps_3 [simp]: "unit_steps 3 = 3"
  by (simp add: unit_steps_def)




subsection \<open>The remainder\<close>

lemma moveX_no_solids:
  assumes "solids (physics w) = []" and "entity (components (scene w) this) = Some e"
  shows "moveX reg this amount w =
    (Inr True,
     w\<lparr>physics := (physics w)\<lparr>remainder_x := mod1 (dadd amount (remainder_x (physics w)))\<rparr>,
       scene := entity_add_x e (of_int (trunc (dadd amount (remainder_x (physics w)))))
                  (scene w)\<rparr>)"
proof -
  have "dsub (dadd amount (remainder_x (physics w)))
          (mod1 (dadd amount (remainder_x (physics w))))
        = of_int (trunc (dadd amount (remainder_x (physics w))))"
    unfolding dadd_def by (rule dsub_mod1)
  then show ?thesis
    using assms by (simp add: moveX_def moveXAbsolute_def Let_def)
qed

text \<open>A call that stays below one unit moves nothing and keeps the rounded sum.\<close>

lemma moveX_fraction:
  assumes "solids (physics w) = []" and "entity (components (scene w) this) = Some e"
    and "fl (ent_x (entities (scene w) e)) = ent_x (entities (scene w) e)"
    and "dadd amount (remainder_x (physics w)) = m" and "0 \<le> m" and "m < 1"
  shows "moveX reg this amount w =
           (Inr True, w\<lparr>physics := (physics w)\<lparr>remainder_x := m\<rparr>\<rparr>)"
proof -
  have t: "trunc m = 0"
    using assms(5,6) by (simp add: trunc_def floor_eq_iff)
  have "entity_add_x e 0 (scene w) = scene w"
    using assms(3) by (simp add: entity_add_x_def dadd_def)
  then show ?thesis
    using moveX_no_solids [OF assms(1,2), of reg amount] assms(4) t by (simp add: mod1_def)
qed

text \<open>
  Two ticks of \<open>update\<close> with the speed \<open>(30, 0)\<close> and the double nearest to \<open>1 / 60\<close> as
  \<open>Engine.delta\<close>: the product \<open>30 * delta\<close> is rounded to \<open>1 / 2\<close>.
\<close>

lemma thirty_sixtieths: "dmul 30 sixtieth = 1 / 2"
  using fl_at [of "- 2" "30 * (4803839602528529 / 288230376151711744)"]
  by (simp add: dmul_def sixtieth_def round_even_def Let_def)

lemma fl_half [simp]: "fl (1 / 2) = 1 / 2"
  using fl_at [of "- 1" "1 / 2"] by (simp add: round_even_def Let_def)

lemma update_two_ticks:
  assumes "solids (physics w) = []" and "entity (components (scene w) this) = Some e"
    and "speed_x (physics w) = 30" and "speed_y (physics w) = 0"
    and "remainder_x (physics w) = 0"
    and "ent_x (entities (scene w) e) = of_int n" and "\<bar>n\<bar> < 2 ^ 52"
  shows "fst (update reg this sixtieth w) = Inr ()"
    and "ent_x (entities (scene (snd (update reg this sixtieth w))) e) = of_int n"
    and "remainder_x (physics (snd (update reg this sixtieth w))) = 1 / 2"
    and "fst (update reg this sixtieth (snd (update reg this sixtieth w))) = Inr ()"
    and "ent_x (entities (scene (snd (update reg this sixtieth
                                     (snd (update reg this sixtieth w))))) e) = of_int n + 1"
    and "remainder_x (physics (snd (update reg this sixtieth
                                     (snd (update reg this sixtieth w))))) = 0"
proof -
  let ?w1 = "w\<lparr>physics := (physics w)\<lparr>remainder_x := 1 / 2\<rparr>\<rparr>"
  let ?w2 = "w\<lparr>physics := (physics w)\<lparr>remainder_x := 0\<rparr>,
               scene := entity_add_x e 1 (scene w)\<rparr>"
  have n0: "fl (of_int n) = of_int n"
    using assms(7) by (intro fl_of_int) simp
  have "\<bar>n + 1\<bar> < 2 ^ 53"
    using assms(7) by simp
  then have "fl (of_int (n + 1)) = of_int (n + 1)"
    by (rule fl_of_int)
  then have n1: "fl (of_int n + 1) = of_int n + 1"
    by simp
  have m1: "moveX reg this (1 / 2) w = (Inr True, ?w1)"
    using assms(1,2) by (rule moveX_fraction) (simp_all add: assms(5,6) n0 dadd_def)
  have u1: "update reg this sixtieth w = (Inr (), ?w1)"
    by (simp add: update_def assms(3,4) thirty_sixtieths m1)
  have t1: "trunc 1 = 1"
    by (simp add: trunc_def)
  have m2: "moveX reg this (1 / 2) ?w1 = (Inr True, ?w2)"
    using moveX_no_solids [of ?w1 this e reg "1 / 2"] assms(1,2)
    by (simp add: dadd_def mod1_def t1)
  have u2: "update reg this sixtieth ?w1 = (Inr (), ?w2)"
    by (simp add: update_def assms(3,4) thirty_sixtieths m2)
  show "fst (update reg this sixtieth w) = Inr ()"
    and "ent_x (entities (scene (snd (update reg this sixtieth w))) e) = of_int n"
    and "remainder_x (physics (snd (update reg this sixtieth w))) = 1 / 2"
    by (simp_all add: u1 assms(6))
  show "fst (update reg this sixtieth (snd (update reg this sixtieth w))) = Inr ()"
    and "ent_x (entities (scene (snd (update reg this sixtieth
                                     (snd (update reg this sixtieth w))))) e) = of_int n + 1"
    and "remainder_x (physics (snd (update reg this sixtieth
                                     (snd (update reg this sixtieth w))))) = 0"
    by (simp_all add: u1 u2 assms(6) dadd_def n1)
qed

text \<open>
  C2, at a concrete run. The mover without solids at position \<open>0\<close> with remainder \<open>0\<close>:
  ten calls of \<open>moveX(0.1)\<close> leave it at \<open>0\<close> with the remainder \<open>0.9999999999999999\<close>,
  each sum being rounded; one call with the amount \<open>10 * 0.1\<close>, which is \<open>1\<close> in doubles,
  moves it to \<open>1\<close> and leaves the remainder \<open>0\<close>.
\<close>

theorem moveX_tenths_counterexample:
  "ent_x (entities (scene ghost_world) 0) = 0
   \<and> remainder_x (physics ghost_world) = 0
   \<and> ent_x (entities (scene (moveX_times default_registry 0 tenth 10 ghost_world)) 0) = 0
   \<and> remainder_x (physics (moveX_times default_registry 0 tenth 10 ghost_world))
       = 9007199254740991 / 9007199254740992
   \<and> dmul 10 tenth = 1
   \<and> ent_x (entities (scene (snd (moveX default_registry 0 (dmul 10 tenth) ghost_world))) 0)
       = 1
   \<and> remainder_x (physics (snd (moveX default_registry 0 (dmul 10 tenth) ghost_world))) = 0"
proof -
  let ?W = "\<lambda>r. ghost_world\<lparr>physics := (physics ghost_world)\<lparr>remainder_x :=
      r\<rparr>\<rparr>"
  have w: "solids (physics (?W r)) = []" "entity (components (scene (?W r)) 0) = Some 0"
    "fl (ent_x (entities (scene (?W r)) 0)) = ent_x (entities (scene (?W r)) 0)"
    "remainder_x (physics (?W r)) = r" for r
    by (simp_all add: ghost_world_def solid_scene_def Hitbox_new_def origin_entity_def)
  have w0: "?W 0 = ghost_world"
    by (simp add: ghost_world_def)
  have a1: "dadd tenth (0)
      = 3602879701896397 / 36028797018963968"
    using fl_at [of "- 4" "3602879701896397 / 36028797018963968
      + 0"]
    by (simp add: dadd_def tenth_def round_even_def Let_def)
  have a2: "dadd tenth (3602879701896397 / 36028797018963968)
      = 3602879701896397 / 18014398509481984"
    using fl_at [of "- 3" "3602879701896397 / 36028797018963968
      + 3602879701896397 / 36028797018963968"]
    by (simp add: dadd_def tenth_def round_even_def Let_def)
  have a3: "dadd tenth (3602879701896397 / 18014398509481984)
      = 1351079888211149 / 4503599627370496"
    using fl_at [of "- 2" "3602879701896397 / 36028797018963968
      + 3602879701896397 / 18014398509481984"]
    by (simp add: dadd_def tenth_def round_even_def Let_def)
  have a4: "dadd tenth (1351079888211149 / 4503599627370496)
      = 3602879701896397 / 9007199254740992"
    using fl_at [of "- 2" "3602879701896397 / 36028797018963968
      + 1351079888211149 / 4503599627370496"]
    by (simp add: dadd_def tenth_def round_even_def Let_def)
  have a5: "dadd tenth (3602879701896397 / 9007199254740992)
      = 1 / 2"
    using fl_at [of "- 1" "3602879701896397 / 36028797018963968
      + 3602879701896397 / 9007199254740992"]
    by (simp add: dadd_def tenth_def round_even_def Let_def)
  have a6: "dadd tenth (1 / 2)
      = 5404319552844595 / 9007199254740992"
    using fl_at [of "- 1" "3602879701896397 / 36028797018963968
      + 1 / 2"]
    by (simp add: dadd_def tenth_def round_even_def Let_def)
  have a7: "dadd tenth (5404319552844595 / 9007199254740992)
      = 3152519739159347 / 4503599627370496"
    using fl_at [of "- 1" "3602879701896397 / 36028797018963968
      + 5404319552844595 / 9007199254740992"]
    by (simp add: dadd_def tenth_def round_even_def Let_def)
  have a8: "dadd tenth (3152519739159347 / 4503599627370496)
      = 7205759403792793 / 9007199254740992"
    using fl_at [of "- 1" "3602879701896397 / 36028797018963968
      + 3152519739159347 / 4503599627370496"]
    by (simp add: dadd_def tenth_def round_even_def Let_def)
  have a9: "dadd tenth (7205759403792793 / 9007199254740992)
      = 2026619832316723 / 2251799813685248"
    using fl_at [of "- 1" "3602879701896397 / 36028797018963968
      + 7205759403792793 / 9007199254740992"]
    by (simp add: dadd_def tenth_def round_even_def Let_def)
  have a10: "dadd tenth (2026619832316723 / 2251799813685248)
      = 9007199254740991 / 9007199254740992"
    using fl_at [of "- 1" "3602879701896397 / 36028797018963968
      + 2026619832316723 / 2251799813685248"]
    by (simp add: dadd_def tenth_def round_even_def Let_def)
  have s1: "moveX default_registry 0 tenth (?W (0))
      = (Inr True, ?W (3602879701896397 / 36028797018963968))"
    using moveX_fraction [where w = "?W (0)" and this = 0 and e = 0
        and amount = tenth and m = "3602879701896397 / 36028797018963968" and reg = default_registry]
      w [of "0"] a1
    by simp
  have s2: "moveX default_registry 0 tenth (?W (3602879701896397 / 36028797018963968))
      = (Inr True, ?W (3602879701896397 / 18014398509481984))"
    using moveX_fraction [where w = "?W (3602879701896397 / 36028797018963968)" and this = 0 and e = 0
        and amount = tenth and m = "3602879701896397 / 18014398509481984" and reg = default_registry]
      w [of "3602879701896397 / 36028797018963968"] a2
    by simp
  have s3: "moveX default_registry 0 tenth (?W (3602879701896397 / 18014398509481984))
      = (Inr True, ?W (1351079888211149 / 4503599627370496))"
    using moveX_fraction [where w = "?W (3602879701896397 / 18014398509481984)" and this = 0 and e = 0
        and amount = tenth and m = "1351079888211149 / 4503599627370496" and reg = default_registry]
      w [of "3602879701896397 / 18014398509481984"] a3
    by simp
  have s4: "moveX default_registry 0 tenth (?W (1351079888211149 / 4503599627370496))
      = (Inr True, ?W (3602879701896397 / 9007199254740992))"
    using moveX_fraction [where w = "?W (1351079888211149 / 4503599627370496)" and this = 0 and e = 0
        and amount = tenth and m = "3602879701896397 / 9007199254740992" and reg = default_registry]
      w [of "1351079888211149 / 4503599627370496"] a4
    by simp
  have s5: "moveX default_registry 0 tenth (?W (3602879701896397 / 9007199254740992))
      = (Inr True, ?W (1 / 2))"
    using moveX_fraction [where w = "?W (3602879701896397 / 9007199254740992)" and this = 0 and e = 0
        and amount = tenth and m = "1 / 2" and reg = default_registry]
      w [of "3602879701896397 / 9007199254740992"] a5
    by simp
  have s6: "moveX default_registry 0 tenth (?W (1 / 2))
      = (Inr True, ?W (5404319552844595 / 9007199254740992))"
    using moveX_fraction [where w = "?W (1 / 2)" and this = 0 and e = 0
        and amount = tenth and m = "5404319552844595 / 9007199254740992" and reg = default_registry]
      w [of "1 / 2"] a6
    by simp
  have s7: "moveX default_registry 0 tenth (?W (5404319552844595 / 9007199254740992))
      = (Inr True, ?W (3152519739159347 / 4503599627370496))"
    using moveX_fraction [where w = "?W (5404319552844595 / 9007199254740992)" and this = 0 and e = 0
        and amount = tenth and m = "3152519739159347 / 4503599627370496" and reg = default_registry]
      w [of "5404319552844595 / 9007199254740992"] a7
    by simp
  have s8: "moveX default_registry 0 tenth (?W (3152519739159347 / 4503599627370496))
      = (Inr True, ?W (7205759403792793 / 9007199254740992))"
    using moveX_fraction [where w = "?W (3152519739159347 / 4503599627370496)" and this = 0 and e = 0
        and amount = tenth and m = "7205759403792793 / 9007199254740992" and reg = default_registry]
      w [of "3152519739159347 / 4503599627370496"] a8
    by simp
  have s9: "moveX default_registry 0 tenth (?W (7205759403792793 / 9007199254740992))
      = (Inr True, ?W (2026619832316723 / 2251799813685248))"
    using moveX_fraction [where w = "?W (7205759403792793 / 9007199254740992)" and this = 0 and e = 0
        and amount = tenth and m = "2026619832316723 / 2251799813685248" and reg = default_registry]
      w [of "7205759403792793 / 9007199254740992"] a9
    by simp
  have s10: "moveX default_registry 0 tenth (?W (2026619832316723 / 2251799813685248))
      = (Inr True, ?W (9007199254740991 / 9007199254740992))"
    using moveX_fraction [where w = "?W (2026619832316723 / 2251799813685248)" and this = 0 and e = 0
        and amount = tenth and m = "9007199254740991 / 9007199254740992" and reg = default_registry]
      w [of "2026619832316723 / 2251799813685248"] a10
    by simp
  have ten: "moveX_times default_registry 0 tenth 10 (?W 0)
      = ?W (9007199254740991 / 9007199254740992)"
    by (simp add: eval_nat_numeral s1 s2 s3 s4 s5 s6 s7 s8 s9 s10)
  have one: "dmul 10 tenth = 1"
    using fl_at [of 0 "10 * (3602879701896397 / 36028797018963968)"]
    by (simp add: dmul_def tenth_def round_even_def Let_def)
  have t1: "trunc 1 = 1"
    by (simp add: trunc_def)
  have big: "moveX default_registry 0 1 ghost_world
      = (Inr True,
         ghost_world\<lparr>physics := (physics ghost_world)\<lparr>remainder_x := 0\<rparr>,
                     scene := entity_add_x 0 1 (scene ghost_world)\<rparr>)"
    using moveX_no_solids [of ghost_world 0 0 default_registry 1] w(1,2) [of 0]
    by (simp add: w0 dadd_def mod1_def t1 ghost_world_def)
  show ?thesis
    using ten unfolding w0 one big
    by (simp add: ghost_world_def solid_scene_def origin_entity_def dadd_def)
qed

text \<open>
  C2, as the code has it. A mover without solids attached to an entity \<open>e\<close>. With the
  speed \<open>(30, 0)\<close>, the remainder \<open>0\<close> and the double nearest to \<open>1 / 60\<close> as delta, the
  product \<open>30 * delta\<close> is rounded to \<open>1 / 2\<close>: the first \<open>update\<close> leaves an integer
  position below \<open>2 ^ 52\<close> as it is and keeps \<open>1 / 2\<close>, the second moves it by exactly \<open>1\<close> and
  keeps \<open>0\<close>. In general \<open>moveX\<close> rounds the sum of the amount and the remainder, keeps the
  fractional part of the rounded sum, which has its sign and is below \<open>1\<close> in magnitude,
  and adds the integer part to the position: the two parts add up to the rounded sum.
\<close>

theorem remainder_carries_fraction:
  assumes "solids (physics w) = []" and "entity (components (scene w) this) = Some e"
  shows
    "(speed_x (physics w) = 30 \<and> speed_y (physics w) = 0 \<and> remainder_x (physics w) = 0
        \<and> ent_x (entities (scene w) e) = of_int n \<and> \<bar>n\<bar> < 2 ^ 52 \<longrightarrow>
        fst (update reg this sixtieth w) = Inr ()
        \<and> ent_x (entities (scene (snd (update reg this sixtieth w))) e) = of_int n
        \<and> remainder_x (physics (snd (update reg this sixtieth w))) = 1 / 2
        \<and> fst (update reg this sixtieth (snd (update reg this sixtieth w))) = Inr ()
        \<and> ent_x (entities (scene (snd (update reg this sixtieth
                                         (snd (update reg this sixtieth w))))) e)
            = of_int n + 1
        \<and> remainder_x (physics (snd (update reg this sixtieth
                                         (snd (update reg this sixtieth w))))) = 0)
     \<and> dmul 30 sixtieth = 1 / 2
     \<and> moveX reg this amount w =
         (Inr True,
          w\<lparr>physics := (physics w)\<lparr>remainder_x := mod1 (dadd amount (remainder_x (physics w)))\<rparr>,
            scene := entity_add_x e (of_int (trunc (dadd amount (remainder_x (physics w)))))
                       (scene w)\<rparr>)
     \<and> of_int (trunc (dadd amount (remainder_x (physics w))))
          + mod1 (dadd amount (remainder_x (physics w)))
        = fl (amount + remainder_x (physics w))
     \<and> \<bar>mod1 (dadd amount (remainder_x (physics w)))\<bar> < 1
     \<and> (0 \<le> dadd amount (remainder_x (physics w))
          \<longrightarrow> 0 \<le> mod1 (dadd amount (remainder_x (physics w))))
     \<and> (dadd amount (remainder_x (physics w)) \<le> 0
          \<longrightarrow> mod1 (dadd amount (remainder_x (physics w))) \<le> 0)"
proof -
  have two: "speed_x (physics w) = 30 \<and> speed_y (physics w) = 0 \<and> remainder_x (physics w) = 0
        \<and> ent_x (entities (scene w) e) = of_int n \<and> \<bar>n\<bar> < 2 ^ 52 \<longrightarrow>
        fst (update reg this sixtieth w) = Inr ()
        \<and> ent_x (entities (scene (snd (update reg this sixtieth w))) e) = of_int n
        \<and> remainder_x (physics (snd (update reg this sixtieth w))) = 1 / 2
        \<and> fst (update reg this sixtieth (snd (update reg this sixtieth w))) = Inr ()
        \<and> ent_x (entities (scene (snd (update reg this sixtieth
                                         (snd (update reg this sixtieth w))))) e)
            = of_int n + 1
        \<and> remainder_x (physics (snd (update reg this sixtieth
                                         (snd (update reg this sixtieth w))))) = 0"
    using update_two_ticks [OF assms, of n reg] by blast
  have sum: "of_int (trunc (dadd amount (remainder_x (physics w))))
          + mod1 (dadd amount (remainder_x (physics w)))
        = fl (amount + remainder_x (physics w))"
    by (simp add: mod1_def dadd_def)
  show ?thesis
    using two sum thirty_sixtieths moveX_no_solids [OF assms, of reg amount]
      mod1_bounds [of "dadd amount (remainder_x (physics w))"]
      mod1_sign [of "dadd amount (remainder_x (physics w))"]
    by blast
qed

theorem remainder_carries_fraction_witness:
  "solids (physics ghost_world) = []
   \<and> entity (components (scene ghost_world) 0) = Some 0
   \<and> speed_x (physics ghost_world) = 30 \<and> speed_y (physics ghost_world) = 0
   \<and> remainder_x (physics ghost_world) = 0
   \<and> ent_x (entities (scene ghost_world) 0) = of_int 0 \<and> \<bar>0 :: int\<bar> < 2 ^ 52
   \<and> fst (update default_registry 0 sixtieth ghost_world) = Inr ()
   \<and> fst (update default_registry 0 sixtieth (snd (update default_registry 0 sixtieth ghost_world)))
       = Inr ()
   \<and> ent_x (entities (scene (snd (update default_registry 0 sixtieth ghost_world))) 0) = 0
   \<and> remainder_x (physics (snd (update default_registry 0 sixtieth ghost_world))) = 1 / 2
   \<and> ent_x (entities (scene (snd (update default_registry 0 sixtieth
        (snd (update default_registry 0 sixtieth ghost_world))))) 0) = 1
   \<and> remainder_x (physics (snd (update default_registry 0 sixtieth
        (snd (update default_registry 0 sixtieth ghost_world))))) = 0
   \<and> 0 \<le> dadd (1 / 2) (remainder_x (physics ghost_world))
   \<and> mod1 (dadd (1 / 2) (remainder_x (physics ghost_world))) = 1 / 2
   \<and> dadd (- (1 / 2)) (remainder_x (physics ghost_world)) \<le> 0
   \<and> mod1 (dadd (- (1 / 2)) (remainder_x (physics ghost_world))) = - (1 / 2)"
proof -
  have g: "solids (physics ghost_world) = []" "entity (components (scene ghost_world) 0) = Some 0"
    "speed_x (physics ghost_world) = 30" "speed_y (physics ghost_world) = 0"
    "remainder_x (physics ghost_world) = 0" "ent_x (entities (scene ghost_world) 0) = of_int 0"
    by (simp_all add: ghost_world_def solid_scene_def Hitbox_new_def origin_entity_def)
  have h: "fl (- (1 / 2)) = - (1 / 2)"
    using fl_at [of "- 1" "- (1 / 2)"] by (simp add: round_even_def Let_def)
  have m: "mod1 (1 / 2) = 1 / 2" "mod1 (- (1 / 2)) = - (1 / 2)"
    by (simp_all add: mod1_def trunc_def ceiling_def)
  show ?thesis
    using remainder_carries_fraction [OF g(1,2), of 0 default_registry "1 / 2"]
      remainder_carries_fraction [OF g(1,2), of 0 default_registry "- (1 / 2)"]
    by (simp add: g dadd_def h m)
qed

end
